theory Spec2Isabelle
  imports Main "HOL-Library.Word"
begin

unbundle bit_operations_syntax

section \<open>Bytes, errors, items and verbs\<close>

text \<open>
  Go's \<^verbatim>\<open>string\<close> and \<^verbatim>\<open>[]byte\<close> are both sequences of 8-bit bytes, and the drivers
  convert freely between them; both are lists of \<^typ>\<open>char\<close>, HOL's 8-bit character.
\<close>

type_synonym bytes = string
type_synonym u8 = "8 word"
type_synonym u16 = "16 word"
type_synonym u32 = "32 word"
type_synonym u64 = "64 word"

definition CR :: char where "CR = CHR 0x0D"
definition LF :: char where "LF = CHR 0x0A"

text \<open>
  The sentinel errors of package \<^verbatim>\<open>types\<close>, the errors of Go's \<^verbatim>\<open>io\<close>, \<^verbatim>\<open>bufio\<close> and
  \<^verbatim>\<open>strconv\<close> packages that the drivers pass through, an error made by \<^verbatim>\<open>fmt.Errorf\<close>
  (its format string and its arguments, not rendered) or by \<^verbatim>\<open>errors.New\<close> (its
  message), and a run-time panic. A Go \<^verbatim>\<open>error\<close> value is an \<^typ>\<open>'a option\<close> of these,
  \<^const>\<open>None\<close> for \<^verbatim>\<open>nil\<close>. A panic is not a value that a caller can test or replace:
  it unwinds through every caller, so a function that goes on after an error checks
  for it first.
\<close>

datatype error =
    ErrCacheMiss | ErrCASConflict | ErrNotStored | ErrServerError | ErrNoStats
  | ErrMalformedKey | ErrNoServers | ErrValueTooLarge | ErrInvalidArgs
  | ErrValueNotStored | ErrNonNumeric | ErrAuthRequired | ErrAuthContinue
  | ErrUnknownCommand | ErrOutOfMemory | ErrUnknownError
  | EOF | ErrUnexpectedEOF | ErrBufferFull | ErrTransport
  | ErrSyntax | ErrRange
  | Errorf string "bytes list"
  | ErrorsNew bytes
  | Panic

fun is_protocol_error :: "error option \<Rightarrow> bool" where
  "is_protocol_error (Some (Errorf fmt args)) = True"
| "is_protocol_error _ = False"

text \<open>
  Modelled from the spec: the declaration of \<^verbatim>\<open>types.Item\<close> is not among the sources;
  its fields are those of section 3 (key and value byte strings, 32-bit flags, signed
  32-bit expiration, 64-bit cas id). The expiration is kept as its 32 bits: \<^const>\<open>sint\<close>
  reads it as Go's \<^verbatim>\<open>int32\<close>, and the conversion \<^verbatim>\<open>uint32(item.Expiration)\<close> keeps the bits.
\<close>

record item =
  Key :: bytes
  Value :: bytes
  Flags :: u32
  Expiration :: u32
  Casid :: u64

text \<open>\<^verbatim>\<open>types.Verb\<close> is a string type.\<close>

type_synonym verb = string

definition Set :: verb where "Set = ''set''"
definition Add :: verb where "Add = ''add''"
definition Replace :: verb where "Replace = ''replace''"
definition Cas :: verb where "Cas = ''cas''"
definition Incr :: verb where "Incr = ''incr''"
definition Decr :: verb where "Decr = ''decr''"

section \<open>The buffered connection\<close>

text \<open>
  A \<^verbatim>\<open>*bufio.ReadWriter\<close> over a byte stream. The read side is the bytes the server
  still delivers (\<open>rd\<close>, after which the stream ends) and the size of the reader's
  buffer (\<open>rsize\<close>). The write side is the bytes accepted by the buffered writer and not
  yet flushed (\<open>wbuf\<close>), the bytes handed to the transport (\<open>wire\<close>), whether the
  transport refuses writes (\<open>wfail\<close>) and the writer's sticky error (\<open>werr\<close>). The
  writer's buffer holds a whole request, so bytes reach the transport at \<^verbatim>\<open>Flush\<close>.
\<close>

record conn =
  rd :: bytes
  rsize :: nat
  wbuf :: bytes
  wire :: bytes
  wfail :: bool
  werr :: bool

definition Write :: "conn \<Rightarrow> bytes \<Rightarrow> error option \<times> conn" where
  "Write c p = (if werr c then (Some ErrTransport, c) else (None, c\<lparr>wbuf := wbuf c @ p\<rparr>))"

definition Flush :: "conn \<Rightarrow> error option \<times> conn" where
  "Flush c =
     (if werr c then (Some ErrTransport, c)
      else if wbuf c = [] then (None, c)
      else if wfail c then (Some ErrTransport, c\<lparr>werr := True\<rparr>)
      else (None, c\<lparr>wire := wire c @ wbuf c, wbuf := []\<rparr>))"

text \<open>
  \<^verbatim>\<open>ReadSlice(delim)\<close>: the line up to and including the first delimiter if it lies
  within one buffer; \<^verbatim>\<open>ErrBufferFull\<close> if a full buffer holds no delimiter; the error
  of the stream's end otherwise. The bytes read so far are returned with the error.
\<close>

definition ReadSlice :: "conn \<Rightarrow> char \<Rightarrow> bytes \<times> error option \<times> conn" where
  "ReadSlice c delim =
     (let win = take (rsize c) (rd c) in
      if delim \<in> set win then
        (let line = takeWhile (\<lambda>b. b \<noteq> delim) win @ [delim]
         in (line, None, c\<lparr>rd := drop (length line) (rd c)\<rparr>))
      else if rsize c \<le> length (rd c) then
        (win, Some ErrBufferFull, c\<lparr>rd := drop (rsize c) (rd c)\<rparr>)
      else (rd c, Some EOF, c\<lparr>rd := []\<rparr>))"

text \<open>\<^verbatim>\<open>io.ReadFull\<close> on a buffer of \<open>n\<close> bytes.\<close>

definition ReadFull :: "conn \<Rightarrow> nat \<Rightarrow> bytes \<times> error option \<times> conn" where
  "ReadFull c n =
     (if n \<le> length (rd c) then (take n (rd c), None, c\<lparr>rd := drop n (rd c)\<rparr>)
      else (rd c, Some (if rd c = [] then EOF else ErrUnexpectedEOF), c\<lparr>rd := []\<rparr>))"

section \<open>The binary driver\<close>

subsection \<open>Status codes and opcodes (proto.go)\<close>

definition StatusOK :: u16 where "StatusOK = 0"
definition StatusNotFound :: u16 where "StatusNotFound = 1"
definition StatusKeyExists :: u16 where "StatusKeyExists = 2"
definition StatusValueTooLarge :: u16 where "StatusValueTooLarge = 3"
definition StatusInvalidArgs :: u16 where "StatusInvalidArgs = 4"
definition StatusValueNotStored :: u16 where "StatusValueNotStored = 5"
definition StatusNonNumeric :: u16 where "StatusNonNumeric = 6"
definition StatusAuthRequired :: u16 where "StatusAuthRequired = 0x20"
definition StatusAuthContinue :: u16 where "StatusAuthContinue = 0x21"
definition StatusUnknownCommand :: u16 where "StatusUnknownCommand = 0x81"
definition StatusOutOfMemory :: u16 where "StatusOutOfMemory = 0x82"
definition StatusAuthUnknown :: u16 where "StatusAuthUnknown = 0xffff"
definition StatusNetworkError :: u16 where "StatusNetworkError = 0xfff1"
definition StatusUnknownError :: u16 where "StatusUnknownError = 0xffff"

lemmas Status_defs =
  StatusOK_def StatusNotFound_def StatusKeyExists_def StatusValueTooLarge_def
  StatusInvalidArgs_def StatusValueNotStored_def StatusNonNumeric_def
  StatusAuthRequired_def StatusAuthContinue_def StatusUnknownCommand_def
  StatusOutOfMemory_def

definition newError :: "u16 \<Rightarrow> error option" where
  "newError status =
     (if status = StatusOK then None
      else if status = StatusNotFound then Some ErrCacheMiss
      else if status = StatusKeyExists then Some ErrCASConflict
      else if status = StatusValueTooLarge then Some ErrValueTooLarge
      else if status = StatusInvalidArgs then Some ErrInvalidArgs
      else if status = StatusValueNotStored then Some ErrValueNotStored
      else if status = StatusNonNumeric then Some ErrNonNumeric
      else if status = StatusAuthRequired then Some ErrAuthRequired
      else if status = StatusAuthContinue then Some ErrAuthContinue
      else if status = StatusUnknownCommand then Some ErrUnknownCommand
      else if status = StatusOutOfMemory then Some ErrOutOfMemory
      else Some ErrUnknownError)"

type_synonym opCode = u8

definition opGet :: opCode where "opGet = 0x00"
definition opSet :: opCode where "opSet = 0x01"
definition opAdd :: opCode where "opAdd = 0x02"
definition opReplace :: opCode where "opReplace = 0x03"
definition opDelete :: opCode where "opDelete = 0x04"
definition opIncrement :: opCode where "opIncrement = 0x05"
definition opDecrement :: opCode where "opDecrement = 0x06"
definition opQuit :: opCode where "opQuit = 0x07"
definition opFlush :: opCode where "opFlush = 0x08"
definition opGetQ :: opCode where "opGetQ = 0x09"
definition opNoop :: opCode where "opNoop = 0x0a"
definition opVersion :: opCode where "opVersion = 0x0b"
definition opTouch :: opCode where "opTouch = 0x1c"

lemmas op_defs =
  opGet_def opSet_def opAdd_def opReplace_def opDelete_def opIncrement_def
  opDecrement_def opQuit_def opFlush_def opGetQ_def opNoop_def opVersion_def opTouch_def

definition magicSend :: u8 where "magicSend = 0x80"
definition magicRecv :: u8 where "magicRecv = 0x81"

record header =
  Magic :: u8
  Op :: opCode
  KeyLen :: u16
  ExtraLen :: u8
  DataType :: u8
  ResvOrStatus :: u16
  BodyLen :: u32
  Opaque :: u32
  CAS :: u64

text \<open>
  An extra is a value of one of the four integer types that \<^verbatim>\<open>sizeOfExtras\<close> accepts;
  the drivers build no other, so the panic of its default case has no input here. The
  out-extras of the source are pointers to such values: the model keeps the values and
  \<open>recv\<close> replaces them.
\<close>

datatype extra = X8 u8 | X16 u16 | X32 u32 | X64 u64

record msg = header +
  iextras :: "extra list"
  oextras :: "extra list"
  key :: bytes
  val :: bytes

subsection \<open>Big-endian encoding (encoding/binary)\<close>

text \<open>The low byte of a word.\<close>

definition low_byte :: "'a::len word \<Rightarrow> char" where
  "low_byte w = char_of (unat w)"

definition be16 :: "u16 \<Rightarrow> bytes" where
  "be16 w = [low_byte (drop_bit 8 w), low_byte w]"

definition be32 :: "u32 \<Rightarrow> bytes" where
  "be32 w = [low_byte (drop_bit 24 w), low_byte (drop_bit 16 w), low_byte (drop_bit 8 w), low_byte w]"

definition be64 :: "u64 \<Rightarrow> bytes" where
  "be64 w = [low_byte (drop_bit 56 w), low_byte (drop_bit 48 w), low_byte (drop_bit 40 w),
             low_byte (drop_bit 32 w), low_byte (drop_bit 24 w), low_byte (drop_bit 16 w),
             low_byte (drop_bit 8 w), low_byte w]"

definition from_be :: "bytes \<Rightarrow> 'a::len word" where
  "from_be bs = foldl (\<lambda>acc b. push_bit 8 acc OR of_char b) 0 bs"

definition encode_header :: "'z header_scheme \<Rightarrow> bytes" where
  "encode_header h =
     [low_byte (Magic h), low_byte (Op h)] @ be16 (KeyLen h) @
     [low_byte (ExtraLen h), low_byte (DataType h)] @ be16 (ResvOrStatus h) @
     be32 (BodyLen h) @ be32 (Opaque h) @ be64 (CAS h)"

text \<open>Decoding the 24 bytes that \<^verbatim>\<open>binary.Read\<close> has read into the header of a message.\<close>

definition decode_header :: "bytes \<Rightarrow> msg \<Rightarrow> msg" where
  "decode_header bs m =
     m\<lparr>Magic := from_be (take 1 bs),
       Op := from_be (take 1 (drop 1 bs)),
       KeyLen := from_be (take 2 (drop 2 bs)),
       ExtraLen := from_be (take 1 (drop 4 bs)),
       DataType := from_be (take 1 (drop 5 bs)),
       ResvOrStatus := from_be (take 2 (drop 6 bs)),
       BodyLen := from_be (take 4 (drop 8 bs)),
       Opaque := from_be (take 4 (drop 12 bs)),
       CAS := from_be (take 8 (drop 16 bs))\<rparr>"

fun encode_extra :: "extra \<Rightarrow> bytes" where
  "encode_extra (X8 w) = [low_byte w]"
| "encode_extra (X16 w) = be16 w"
| "encode_extra (X32 w) = be32 w"
| "encode_extra (X64 w) = be64 w"

fun extra_size :: "extra \<Rightarrow> nat" where
  "extra_size (X8 w) = 1"
| "extra_size (X16 w) = 2"
| "extra_size (X32 w) = 4"
| "extra_size (X64 w) = 8"

text \<open>
  \<^verbatim>\<open>binary.Read(buf, binary.BigEndian, e)\<close> on the body buffer, for a pointer \<open>e\<close> to an
  integer: the value read and the rest of the buffer, or the error of a short buffer.
\<close>

fun decode_extra :: "extra \<Rightarrow> bytes \<Rightarrow> error + (extra \<times> bytes)" where
  "decode_extra e buf =
     (let n = extra_size e in
      if buf = [] then Inl EOF
      else if length buf < n then Inl ErrUnexpectedEOF
      else Inr (case e of X8 _ \<Rightarrow> X8 (from_be (take n buf)) | X16 _ \<Rightarrow> X16 (from_be (take n buf))
                | X32 _ \<Rightarrow> X32 (from_be (take n buf)) | X64 _ \<Rightarrow> X64 (from_be (take n buf)),
                drop n buf))"

subsection \<open>The exchange (cmd.go)\<close>

text \<open>\<^verbatim>\<open>sizeOfExtras\<close> adds the sizes in a \<^verbatim>\<open>uint8\<close>.\<close>

fun sizeOfExtras :: "extra list \<Rightarrow> u8" where
  "sizeOfExtras [] = 0"
| "sizeOfExtras (e # es) = of_nat (extra_size e) + sizeOfExtras es"

definition verbToOp :: "verb \<Rightarrow> opCode" where
  "verbToOp verb =
     (if verb = ''incr'' then opIncrement
      else if verb = ''decr'' then opDecrement
      else if verb = ''cas'' then opSet
      else if verb = ''set'' then opSet
      else if verb = ''add'' then opAdd
      else if verb = ''replace'' then opReplace
      else opVersion)"

text \<open>
  \<open>send\<close> fills in the header's magic and lengths, serialises header, extras, key and
  value into one buffer, writes it and flushes. It returns the message as the source
  leaves it.
\<close>

definition fill_header :: "msg \<Rightarrow> msg" where
  "fill_header m =
     (let m1 = m\<lparr>Magic := magicSend\<rparr>;
          m2 = m1\<lparr>ExtraLen := sizeOfExtras (iextras m1)\<rparr>;
          m3 = m2\<lparr>KeyLen := of_nat (length (key m2))\<rparr>
      in m3\<lparr>BodyLen := ucast (ExtraLen m3) + ucast (KeyLen m3) + of_nat (length (val m3))\<rparr>)"

definition frame :: "msg \<Rightarrow> bytes" where
  "frame m = encode_header m @ concat (map encode_extra (iextras m)) @ key m @ val m"

definition send :: "conn \<Rightarrow> msg \<Rightarrow> error option \<times> conn \<times> msg" where
  "send rw m0 =
     (let m = fill_header m0 in
      case Write rw (frame m) of
        (Some e, rw1) \<Rightarrow> (Some e, rw1, m)
      | (None, rw1) \<Rightarrow> (case Flush rw1 of (err, rw2) \<Rightarrow> (err, rw2, m)))"

text \<open>The loop of \<open>recv\<close> over the out-extras; it stops at the first short read.\<close>

fun read_oextras :: "extra list \<Rightarrow> bytes \<Rightarrow> error + (extra list \<times> bytes)" where
  "read_oextras [] buf = Inr ([], buf)"
| "read_oextras (e # es) buf =
     (case decode_extra e buf of
        Inl err \<Rightarrow> Inl err
      | Inr (e', buf') \<Rightarrow>
          (case read_oextras es buf' of
             Inl err \<Rightarrow> Inl err
           | Inr (es', buf'') \<Rightarrow> Inr (e' # es', buf'')))"

text \<open>
  \<^verbatim>\<open>bytes.Buffer.Next(n)\<close> returns at most the bytes left, and panics on a negative
  \<open>n\<close> (the slice bounds are out of range); \<open>recv\<close> computes the value's length in
  \<^verbatim>\<open>int\<close>, here 64 bits wide, so the length is an \<^typ>\<open>int\<close> that may be negative.
\<close>

definition recv_body :: "msg \<Rightarrow> bytes \<Rightarrow> error option \<times> msg" where
  "recv_body m bd =
     (case (if ResvOrStatus m = 0 \<and> 0 < ExtraLen m then read_oextras (oextras m) bd
            else Inr (oextras m, bd)) of
        Inl err \<Rightarrow> (Some err, m)
      | Inr (oex, buf) \<Rightarrow>
          (let m1 = m\<lparr>oextras := oex, key := take (unat (KeyLen m)) buf\<rparr>;
               buf1 = drop (unat (KeyLen m)) buf;
               vlen = uint (BodyLen m) - uint (ExtraLen m) - uint (KeyLen m)
           in if vlen < 0 then (Some Panic, m1)
              else (newError (ResvOrStatus m), m1\<lparr>val := take (nat vlen) buf1\<rparr>)))"

definition recv :: "conn \<Rightarrow> msg \<Rightarrow> error option \<times> conn \<times> msg" where
  "recv r m =
     (case ReadFull r 24 of
        (hb, Some e, r1) \<Rightarrow> (Some e, r1, m)
      | (hb, None, r1) \<Rightarrow>
          (let m1 = decode_header hb m in
           case ReadFull r1 (unat (BodyLen m1)) of
             (bd, Some e, r2) \<Rightarrow> (Some e, r2, m1)
           | (bd, None, r2) \<Rightarrow> (case recv_body m1 bd of (err, m2) \<Rightarrow> (err, r2, m2))))"

definition sendRecv :: "conn \<Rightarrow> msg \<Rightarrow> error option \<times> conn \<times> msg" where
  "sendRecv rw m =
     (case send rw m of
        (Some e, rw1, m1) \<Rightarrow> (Some e, rw1, m1)
      | (None, rw1, m1) \<Rightarrow> recv rw1 m1)"

text \<open>A message literal of the source: the fields it does not name are zero or empty.\<close>

definition msg0 :: msg where
  "msg0 = \<lparr>Magic = 0, Op = 0, KeyLen = 0, ExtraLen = 0, DataType = 0, ResvOrStatus = 0,
           BodyLen = 0, Opaque = 0, CAS = 0, iextras = [], oextras = [], key = [], val = []\<rparr>"

text \<open>
  \<open>Populate\<close> of the binary driver. Go's \<^verbatim>\<open>&&\<close> binds tighter than \<^verbatim>\<open>||\<close>, so the
  condition of the source reads as bracketed here. A panic of the exchange does not
  reach the condition.
\<close>

definition bin_Populate :: "conn \<Rightarrow> verb \<Rightarrow> item \<Rightarrow> error option \<times> conn" where
  "bin_Populate rw verb it =
     (let op = verbToOp verb;
          ocas = (if verb = Cas then Casid it else 0);
          m = msg0\<lparr>Op := op, CAS := ocas,
                   iextras := [X32 (Flags it), X32 (Expiration it)],
                   key := Key it, val := Value it\<rparr>
      in case sendRecv rw m of
           (err, rw1, m1) \<Rightarrow>
             if err = Some Panic then (Some Panic, rw1)
             else if (err = Some ErrCASConflict \<and> verb = ''add'') \<or> verb = ''replace''
             then (Some ErrNotStored, rw1)
             else (err, rw1))"

definition readInt :: "bytes \<Rightarrow> u64 \<times> error option" where
  "readInt b =
     (if length b = 8 then
        (of_char (b ! 7) OR push_bit 8 (of_char (b ! 6)) OR push_bit 16 (of_char (b ! 5)) OR
         push_bit 24 (of_char (b ! 4)) OR push_bit 32 (of_char (b ! 3)) OR
         push_bit 40 (of_char (b ! 2)) OR push_bit 48 (of_char (b ! 1)) OR
         push_bit 56 (of_char (b ! 0)), None)
      else (0, Some (Errorf ''memcache: error parsing int %s'' [b])))"

text \<open>
  \<open>IncrDecr\<close> of the binary driver: the error of \<open>readInt\<close> is assigned and the
  function returns \<^verbatim>\<open>val, nil\<close>.
\<close>

definition bin_IncrDecr :: "conn \<Rightarrow> verb \<Rightarrow> bytes \<Rightarrow> u64 \<Rightarrow> (u64 \<times> error option) \<times> conn" where
  "bin_IncrDecr rw verb k delta =
     (let op = verbToOp verb;
          init = (0 :: u64);
          exp = (0xffffffff :: u32);
          m = msg0\<lparr>Op := op, iextras := [X64 delta, X64 init, X32 exp], key := k\<rparr>
      in case sendRecv rw m of
           (Some err, rw1, m1) \<Rightarrow> ((0, Some err), rw1)
         | (None, rw1, m1) \<Rightarrow>
             (case readInt (val m1) of (v, err) \<Rightarrow> ((v, None), rw1)))"

definition bin_LegalKey :: "bytes \<Rightarrow> bool" where
  "bin_LegalKey k = True"

subsection \<open>Get, Delete and Touch of the binary driver\<close>

text \<open>The value of the variable \<^verbatim>\<open>flags\<close> that the out-extra of \<open>getOne\<close> points to.\<close>

fun u32_of :: "extra \<Rightarrow> u32" where
  "u32_of (X32 w) = w"
| "u32_of _ = 0"

definition getOne :: "conn \<Rightarrow> bytes \<Rightarrow> item list \<Rightarrow> error option \<times> conn \<times> item list" where
  "getOne rw k cb =
     (let m = msg0\<lparr>Op := opGet, CAS := 0, oextras := [X32 0], key := k\<rparr>
      in case sendRecv rw m of
           (Some err, rw1, m1) \<Rightarrow> (Some err, rw1, cb)
         | (None, rw1, m1) \<Rightarrow>
             (None, rw1,
              cb @ [\<lparr>Key = k, Value = val m1, Flags = u32_of (hd (oextras m1)),
                     Expiration = 0, Casid = CAS m1\<rparr>]))"

text \<open>
  The loop of \<open>Get\<close> keeps the last error that is not a cache miss and goes on with the
  next key; a panic of \<open>getOne\<close> ends it.
\<close>

fun bin_Get_loop ::
  "conn \<Rightarrow> bytes list \<Rightarrow> item list \<Rightarrow> error option \<Rightarrow> error option \<times> conn \<times> item list" where
  "bin_Get_loop rw [] cb err = (err, rw, cb)"
| "bin_Get_loop rw (k # keys) cb err =
     (case getOne rw k cb of
        (eg, rw1, cb1) \<Rightarrow>
          if eg = Some Panic then (Some Panic, rw1, cb1)
          else bin_Get_loop rw1 keys cb1
                 (if eg \<noteq> None \<and> eg \<noteq> Some ErrCacheMiss then eg else err))"

definition bin_Get :: "conn \<Rightarrow> bytes list \<Rightarrow> item list \<Rightarrow> error option \<times> conn \<times> item list" where
  "bin_Get rw keys cb = bin_Get_loop rw keys cb None"

definition bin_DeleteCas :: "conn \<Rightarrow> bytes \<Rightarrow> u64 \<Rightarrow> error option \<times> conn" where
  "bin_DeleteCas rw k cas =
     (case sendRecv rw (msg0\<lparr>Op := opDelete, CAS := cas, key := k\<rparr>) of
        (err, rw1, m1) \<Rightarrow> (err, rw1))"

definition bin_Delete :: "conn \<Rightarrow> bytes \<Rightarrow> error option \<times> conn" where
  "bin_Delete rw k = bin_DeleteCas rw k 0"

text \<open>
  \<open>Touch\<close> builds one message and sends it for every key: from the second key on the
  message carries the header and the value that \<open>recv\<close> has stored in it.
\<close>

fun bin_Touch_loop :: "conn \<Rightarrow> msg \<Rightarrow> bytes list \<Rightarrow> error option \<times> conn" where
  "bin_Touch_loop rw m [] = (None, rw)"
| "bin_Touch_loop rw m (k # keys) =
     (case sendRecv rw (m\<lparr>key := k\<rparr>) of
        (Some err, rw1, m1) \<Rightarrow> (Some err, rw1)
      | (None, rw1, m1) \<Rightarrow> bin_Touch_loop rw1 m1 keys)"

definition bin_Touch :: "conn \<Rightarrow> bytes list \<Rightarrow> u32 \<Rightarrow> error option \<times> conn" where
  "bin_Touch rw keys expiration =
     bin_Touch_loop rw (msg0\<lparr>Op := opTouch, iextras := [X32 expiration]\<rparr>) keys"

section \<open>The text driver\<close>

subsection \<open>Constants and formatting\<close>

text \<open>
  Modelled from the spec: the byte-string constants of the text driver (\<^verbatim>\<open>crlf\<close>,
  \<^verbatim>\<open>space\<close>, \<^verbatim>\<open>resultStored\<close> and the others) are declared in a file that is not among
  the sources. They are the CRLF-terminated response lines that section 4.E names;
  \<^verbatim>\<open>TOUCHED\<close>, which the spec does not name, is the memcached text protocol's reply to
  a touch command, \<^verbatim>\<open>space\<close> is the one blank that separates the fields of a line, and
  \<^verbatim>\<open>resultClientErrorPrefix\<close> is the beginning of the line \<^verbatim>\<open>CLIENT_ERROR <msg>\<close> of
  section 4.E.
\<close>

definition crlf :: bytes where "crlf = [CR, LF]"
definition space :: bytes where "space = '' ''"
definition resultOK :: bytes where "resultOK = ''OK'' @ crlf"
definition resultStored :: bytes where "resultStored = ''STORED'' @ crlf"
definition resultNotStored :: bytes where "resultNotStored = ''NOT_STORED'' @ crlf"
definition resultExists :: bytes where "resultExists = ''EXISTS'' @ crlf"
definition resultNotFound :: bytes where "resultNotFound = ''NOT_FOUND'' @ crlf"
definition resultDeleted :: bytes where "resultDeleted = ''DELETED'' @ crlf"
definition resultEnd :: bytes where "resultEnd = ''END'' @ crlf"
definition resultTouched :: bytes where "resultTouched = ''TOUCHED'' @ crlf"
definition resultClientErrorPrefix :: bytes where
  "resultClientErrorPrefix = ''CLIENT_ERROR ''"

lemmas result_defs =
  resultOK_def resultStored_def resultNotStored_def resultExists_def resultNotFound_def
  resultDeleted_def resultEnd_def resultTouched_def crlf_def CR_def LF_def

text \<open>The verb \<^verbatim>\<open>%d\<close> of \<^verbatim>\<open>fmt\<close>: decimal digits, with a minus sign for a negative value.\<close>

fun dec_nat :: "nat \<Rightarrow> bytes" where
  "dec_nat n =
     (if n < 10 then [char_of (48 + n)] else dec_nat (n div 10) @ [char_of (48 + n mod 10)])"

declare dec_nat.simps [simp del]

definition dec_int :: "int \<Rightarrow> bytes" where
  "dec_int i = (if i < 0 then CHR ''-'' # dec_nat (nat (- i)) else dec_nat (nat i))"

definition HasSuffix :: "bytes \<Rightarrow> bytes \<Rightarrow> bool" where
  "HasSuffix s suf = (length suf \<le> length s \<and> drop (length s - length suf) s = suf)"

definition HasPrefix :: "bytes \<Rightarrow> bytes \<Rightarrow> bool" where
  "HasPrefix s pre = (length pre \<le> length s \<and> take (length pre) s = pre)"

subsection \<open>Key legality and stores\<close>

text \<open>The loop of \<open>LegalKey\<close> over the bytes of the key.\<close>

fun legal_bytes :: "bytes \<Rightarrow> bool" where
  "legal_bytes [] = True"
| "legal_bytes (b # bs) =
     (if of_char b \<le> (0x20 :: nat) \<or> b = CHR 0x7F then False else legal_bytes bs)"

definition text_LegalKey :: "bytes \<Rightarrow> bool" where
  "text_LegalKey k = (if 250 < length k then False else legal_bytes k)"

definition text_Populate :: "conn \<Rightarrow> verb \<Rightarrow> item \<Rightarrow> error option \<times> conn" where
  "text_Populate rw verb it =
     (if \<not> text_LegalKey (Key it) then (Some ErrMalformedKey, rw)
      else
        case Write rw
               (if verb = Cas then
                  verb @ '' '' @ Key it @ '' '' @ dec_nat (unat (Flags it)) @ '' '' @
                  dec_int (sint (Expiration it)) @ '' '' @ dec_nat (length (Value it)) @ '' '' @
                  dec_nat (unat (Casid it)) @ crlf
                else
                  verb @ '' '' @ Key it @ '' '' @ dec_nat (unat (Flags it)) @ '' '' @
                  dec_int (sint (Expiration it)) @ '' '' @ dec_nat (length (Value it)) @ crlf) of
          (Some e, rw1) \<Rightarrow> (Some e, rw1)
        | (None, rw1) \<Rightarrow>
        (case Write rw1 (Value it) of
          (Some e, rw2) \<Rightarrow> (Some e, rw2)
        | (None, rw2) \<Rightarrow>
        (case Write rw2 crlf of
          (Some e, rw3) \<Rightarrow> (Some e, rw3)
        | (None, rw3) \<Rightarrow>
        (case Flush rw3 of
          (Some e, rw4) \<Rightarrow> (Some e, rw4)
        | (None, rw4) \<Rightarrow>
        (case ReadSlice rw4 LF of
          (line, Some e, rw5) \<Rightarrow> (Some e, rw5)
        | (line, None, rw5) \<Rightarrow>
            if line = resultStored then (None, rw5)
            else if line = resultNotStored then (Some ErrNotStored, rw5)
            else if line = resultExists then (Some ErrCASConflict, rw5)
            else if line = resultNotFound then (Some ErrCacheMiss, rw5)
            else (Some (Errorf ''memcache: unexpected response line from %q: %q'' [verb, line]),
                  rw5))))))"

subsection \<open>Delete, DeleteAll, FlushAll\<close>

text \<open>
  \<open>writeReadLine\<close> takes the request as \<^verbatim>\<open>fmt.Fprintf\<close> has formatted it.
\<close>

definition writeReadLine :: "conn \<Rightarrow> bytes \<Rightarrow> bytes \<times> error option \<times> conn" where
  "writeReadLine rw req =
     (case Write rw req of
        (Some e, rw1) \<Rightarrow> ([], Some e, rw1)
      | (None, rw1) \<Rightarrow>
          (case Flush rw1 of
             (Some e, rw2) \<Rightarrow> ([], Some e, rw2)
           | (None, rw2) \<Rightarrow> ReadSlice rw2 LF))"

definition writeExpectf :: "conn \<Rightarrow> bytes \<Rightarrow> bytes \<Rightarrow> error option \<times> conn" where
  "writeExpectf rw expect req =
     (case writeReadLine rw req of
        (line, Some e, rw1) \<Rightarrow> (Some e, rw1)
      | (line, None, rw1) \<Rightarrow>
          if line = resultOK then (None, rw1)
          else if line = expect then (None, rw1)
          else if line = resultNotStored then (Some ErrNotStored, rw1)
          else if line = resultExists then (Some ErrCASConflict, rw1)
          else if line = resultNotFound then (Some ErrCacheMiss, rw1)
          else (Some (Errorf ''memcache: unexpected response line: %q'' [line]), rw1))"

definition text_Delete :: "conn \<Rightarrow> bytes \<Rightarrow> error option \<times> conn" where
  "text_Delete rw k = writeExpectf rw resultDeleted (''delete '' @ k @ crlf)"

definition text_DeleteAll :: "conn \<Rightarrow> error option \<times> conn" where
  "text_DeleteAll rw = writeExpectf rw resultDeleted (''flush_all'' @ crlf)"

definition text_FlushAll :: "conn \<Rightarrow> error option \<times> conn" where
  "text_FlushAll rw = writeExpectf rw resultOK (''flush_all'' @ crlf)"

subsection \<open>Touch\<close>

text \<open>The expiration is an \<^verbatim>\<open>int32\<close>: its 32 bits, read by \<^const>\<open>sint\<close>.\<close>

fun text_Touch :: "conn \<Rightarrow> bytes list \<Rightarrow> u32 \<Rightarrow> error option \<times> conn" where
  "text_Touch rw [] expiration = (None, rw)"
| "text_Touch rw (k # keys) expiration =
     (case Write rw (''touch '' @ k @ '' '' @ dec_int (sint expiration) @ crlf) of
        (Some e, rw1) \<Rightarrow> (Some e, rw1)
      | (None, rw1) \<Rightarrow>
      (case Flush rw1 of
        (Some e, rw2) \<Rightarrow> (Some e, rw2)
      | (None, rw2) \<Rightarrow>
      (case ReadSlice rw2 LF of
        (line, Some e, rw3) \<Rightarrow> (Some e, rw3)
      | (line, None, rw3) \<Rightarrow>
          if line = resultTouched then text_Touch rw3 keys expiration
          else if line = resultNotFound then (Some ErrCacheMiss, rw3)
          else (Some (Errorf ''memcache: unexpected response line from touch: %q'' [line]),
                rw3))))"

subsection \<open>Retrieval\<close>

text \<open>
  \<^verbatim>\<open>fmt.Sscanf\<close> belongs to Go's library, so the parser takes it as a parameter: from
  the line, the pattern and the number of destinations it gives the number of values it
  stored, its error, and the values it stored in the destinations \<^verbatim>\<open>&it.Key\<close>,
  \<^verbatim>\<open>&it.Flags\<close>, \<^verbatim>\<open>&size\<close>, \<^verbatim>\<open>&it.Casid\<close>. The size is a Go \<^verbatim>\<open>int\<close>: 64 bits, read
  by \<^const>\<open>sint\<close>, and \<^verbatim>\<open>size+2\<close> wraps around.
\<close>

record scanned =
  sc_key :: bytes
  sc_flags :: u32
  sc_size :: u64
  sc_casid :: u64

type_synonym sscanf = "bytes \<Rightarrow> bytes \<Rightarrow> nat \<Rightarrow> nat \<times> error option \<times> scanned"

definition item0 :: item where
  "item0 = \<lparr>Key = [], Value = [], Flags = 0, Expiration = 0, Casid = 0\<rparr>"

text \<open>
  \<^verbatim>\<open>bytes.Count(line, space)\<close> counts the occurrences of the one-byte string \<open>space\<close>,
  that is, of its byte. With three destinations the cas id of the item is not a
  destination and stays as it was.
\<close>

definition scanGetResponseLine :: "sscanf \<Rightarrow> bytes \<Rightarrow> item \<Rightarrow> u64 \<times> error option \<times> item" where
  "scanGetResponseLine Sscanf line it =
     (let three = (count_list line (hd space) = 3);
          pattern = (if three then ''VALUE %s %d %d'' @ crlf else ''VALUE %s %d %d %d'' @ crlf);
          ndest = (if three then 3 else 4 :: nat)
      in case Sscanf line pattern ndest of
           (n, err, sc) \<Rightarrow>
             (let it1 = it\<lparr>Key := sc_key sc, Flags := sc_flags sc,
                          Casid := (if three then Casid it else sc_casid sc)\<rparr>
              in if err \<noteq> None \<or> n \<noteq> ndest
                 then (- 1, Some (Errorf ''memcache: unexpected line in get response: %q'' [line]), it1)
                 else (sc_size sc, None, it1)))"

lemma ReadSlice_shorter:
  "ReadSlice r d = (line, None, r1) \<Longrightarrow> length (rd r1) < length (rd r)"
proof -
  assume a: "ReadSlice r d = (line, None, r1)"
  show ?thesis
  proof (cases "rd r")
    case Nil
    with a show ?thesis by (simp add: ReadSlice_def split: if_splits)
  next
    case (Cons b bs)
    with a show ?thesis by (auto simp: ReadSlice_def Let_def split: if_splits)
  qed
qed

lemma ReadFull_not_longer:
  "ReadFull r n = (v, e, r1) \<Longrightarrow> length (rd r1) \<le> length (rd r)"
  by (auto simp: ReadFull_def split: if_splits)

text \<open>
  \<^verbatim>\<open>make([]byte, n)\<close> panics when \<open>n\<close> is negative or larger than the greatest
  allocation of Go's runtime, which is \<open>2 ^ 48\<close> bytes on the 64-bit platforms whose
  \<^verbatim>\<open>int\<close> the model has; the machine is taken to have the memory for a smaller one.
\<close>

definition maxAlloc :: nat where
  "maxAlloc = 2 ^ 48"

definition make_panics :: "u64 \<Rightarrow> bool" where
  "make_panics n = (sint n < 0 \<or> maxAlloc < unat n)"

text \<open>
  \<open>parseGetResponse\<close>: the callback \<open>cb\<close> is the list of the items delivered so far.
  Every round reads a line, so the loop ends with the stream.
\<close>

function parseGetResponse :: "sscanf \<Rightarrow> conn \<Rightarrow> item list \<Rightarrow> error option \<times> conn \<times> item list" where
  "parseGetResponse Sscanf r cb =
     (case ReadSlice r LF of
        (line, Some e, r1) \<Rightarrow> (Some e, r1, cb)
      | (line, None, r1) \<Rightarrow>
          if line = resultEnd then (None, r1, cb)
          else
            (case scanGetResponseLine Sscanf line item0 of
               (sz, Some e, it) \<Rightarrow> (Some e, r1, cb)
             | (sz, None, it) \<Rightarrow>
                 if make_panics (sz + 2) then (Some Panic, r1, cb)
                 else
                   (case ReadFull r1 (unat (sz + 2)) of
                      (v, Some e, r2) \<Rightarrow> (Some e, r2, cb)
                    | (v, None, r2) \<Rightarrow>
                        if \<not> HasSuffix v crlf
                        then (Some (Errorf ''memcache: corrupt get result read'' []), r2, cb)
                        else parseGetResponse Sscanf r2
                               (cb @ [it\<lparr>Value := take (nat (sint sz)) v\<rparr>]))))"
  by pat_completeness auto
termination
proof (relation "measure (\<lambda>(S, r, cb). length (rd r))", goal_cases)
  case 1
  show ?case by simp
next
  case (2 Sscanf r cb line y e r1 sz y2 e2 it v y3 e3 r2)
  from 2 have a: "ReadSlice r LF = (line, None, r1)" by simp
  from 2 have b: "ReadFull r1 (unat (sz + 2)) = (v, None, r2)" by simp
  from ReadSlice_shorter [OF a] ReadFull_not_longer [OF b] show ?case by simp
qed

declare parseGetResponse.simps [simp del]

definition join :: "bytes list \<Rightarrow> bytes \<Rightarrow> bytes" where
  "join xs sep = (case xs of [] \<Rightarrow> [] | y # ys \<Rightarrow> y @ concat (map (\<lambda>x. sep @ x) ys))"

definition text_Get :: "sscanf \<Rightarrow> conn \<Rightarrow> bytes list \<Rightarrow> item list \<Rightarrow> error option \<times> conn \<times> item list" where
  "text_Get Sscanf rw keys cb =
     (case Write rw (''gets '' @ join keys '' '' @ crlf) of
        (Some e, rw1) \<Rightarrow> (Some e, rw1, cb)
      | (None, rw1) \<Rightarrow>
          (case Flush rw1 of
             (Some e, rw2) \<Rightarrow> (Some e, rw2, cb)
           | (None, rw2) \<Rightarrow> parseGetResponse Sscanf rw2 cb))"

subsection \<open>Counters\<close>

text \<open>
  \<^verbatim>\<open>strconv.ParseUint(s, 10, 64)\<close>: a syntax error for the empty string and at the first
  byte that is not a decimal digit, a range error as soon as the number no longer fits
  64 bits.
\<close>

fun ParseUint_loop :: "bytes \<Rightarrow> nat \<Rightarrow> error + nat" where
  "ParseUint_loop [] n = Inr n"
| "ParseUint_loop (c # cs) n =
     (let d = (of_char c :: nat)
      in if \<not> (48 \<le> d \<and> d \<le> 57) then Inl ErrSyntax
         else if 2 ^ 64 \<le> n * 10 + (d - 48) then Inl ErrRange
         else ParseUint_loop cs (n * 10 + (d - 48)))"

definition ParseUint :: "bytes \<Rightarrow> error + nat" where
  "ParseUint s = (if s = [] then Inl ErrSyntax else ParseUint_loop s 0)"

text \<open>
  \<open>IncrDecr\<close> of the text driver. The slices \<^verbatim>\<open>line[len(prefix) : len(line)-2]\<close> and
  \<^verbatim>\<open>line[:len(line)-2]\<close> panic when the line is too short for them.
\<close>

definition text_IncrDecr :: "conn \<Rightarrow> verb \<Rightarrow> bytes \<Rightarrow> u64 \<Rightarrow> (u64 \<times> error option) \<times> conn" where
  "text_IncrDecr rw verb k delta =
     (case writeReadLine rw (verb @ '' '' @ k @ '' '' @ dec_nat (unat delta) @ crlf) of
        (line, Some e, rw1) \<Rightarrow> ((0, Some e), rw1)
      | (line, None, rw1) \<Rightarrow>
          if line = resultNotFound then ((0, Some ErrCacheMiss), rw1)
          else if HasPrefix line resultClientErrorPrefix then
            (if length line < length resultClientErrorPrefix + 2 then ((0, Some Panic), rw1)
             else ((0, Some (ErrorsNew (''memcache: client error: '' @
                      take (length line - 2 - length resultClientErrorPrefix)
                        (drop (length resultClientErrorPrefix) line)))), rw1))
          else if length line < 2 then ((0, Some Panic), rw1)
          else
            (case ParseUint (take (length line - 2) line) of
               Inl e \<Rightarrow> ((0, Some e), rw1)
             | Inr v \<Rightarrow> ((of_nat v, None), rw1)))"

section \<open>Sample exchanges\<close>

text \<open>
  A fresh connection on which the server's answer is \<open>resp\<close>, and the frame of a binary
  response with a status and a value (no extras, no key).
\<close>

definition serve :: "bytes \<Rightarrow> conn" where
  "serve resp = \<lparr>rd = resp, rsize = 4096, wbuf = [], wire = [], wfail = False, werr = False\<rparr>"

definition bin_response :: "opCode \<Rightarrow> u16 \<Rightarrow> bytes \<Rightarrow> bytes" where
  "bin_response op status v =
     encode_header (msg0\<lparr>Magic := magicRecv, Op := op, ResvOrStatus := status,
                         BodyLen := of_nat (length v)\<rparr>) @ v"

definition item_bar :: item where
  "item_bar = \<lparr>Key = ''bar'', Value = ''barval'', Flags = 0, Expiration = 0, Casid = 0\<rparr>"

definition item_foo :: item where
  "item_foo = \<lparr>Key = ''foo'', Value = ''fooval'', Flags = 123, Expiration = 0, Casid = 42\<rparr>"

definition item_foo_bar :: item where
  "item_foo_bar =
     \<lparr>Key = ''foo bar'', Value = ''foobarval'', Flags = 0, Expiration = 0, Casid = 0\<rparr>"

definition item_nokey :: item where
  "item_nokey = \<lparr>Key = [], Value = ''v'', Flags = 0, Expiration = 0, Casid = 0\<rparr>"

text \<open>
  A scanner for VALUE lines: the word VALUE, a key, and decimal numbers, separated by
  single blanks, with CRLF at the end. As \<^verbatim>\<open>fmt.Sscanf\<close> does, it takes a sign before
  the size, which is an \<^verbatim>\<open>int\<close>, and fails on a number that does not fit its
  destination. It stands for \<^verbatim>\<open>fmt.Sscanf\<close> in the sample exchanges; the properties of
  the parser hold for every scanner.
\<close>

fun split_on :: "char \<Rightarrow> bytes \<Rightarrow> bytes list" where
  "split_on c [] = [[]]"
| "split_on c (x # xs) =
     (if x = c then [] # split_on c xs
      else (case split_on c xs of [] \<Rightarrow> [[x]] | w # ws \<Rightarrow> (x # w) # ws))"

fun digits_val :: "bytes \<Rightarrow> nat \<Rightarrow> nat option" where
  "digits_val [] acc = Some acc"
| "digits_val (c # cs) acc =
     (let d = (of_char c :: nat)
      in if 48 \<le> d \<and> d \<le> 57 then digits_val cs (10 * acc + (d - 48)) else None)"

definition parse_dec :: "bytes \<Rightarrow> nat option" where
  "parse_dec s = (if s = [] then None else digits_val s 0)"

definition parse_unsigned :: "nat \<Rightarrow> bytes \<Rightarrow> nat option" where
  "parse_unsigned bits s =
     (case parse_dec s of None \<Rightarrow> None | Some n \<Rightarrow> if n < 2 ^ bits then Some n else None)"

definition parse_int64 :: "bytes \<Rightarrow> int option" where
  "parse_int64 s =
     (let neg = (s \<noteq> [] \<and> hd s = CHR ''-'');
          ds = (if s \<noteq> [] \<and> (hd s = CHR ''-'' \<or> hd s = CHR ''+'') then tl s else s)
      in case parse_dec ds of
           None \<Rightarrow> None
         | Some n \<Rightarrow>
             (let i = (if neg then - int n else int n)
              in if - (2 ^ 63) \<le> i \<and> i < 2 ^ 63 then Some i else None))"

definition scan_failed :: "nat \<times> error option \<times> scanned" where
  "scan_failed = (0, Some (Errorf ''input does not match format'' []),
                  \<lparr>sc_key = [], sc_flags = 0, sc_size = 0, sc_casid = 0\<rparr>)"

definition sample_Sscanf :: sscanf where
  "sample_Sscanf line pattern ndest =
     (if \<not> HasSuffix line crlf then scan_failed
      else
        case split_on (CHR '' '') (take (length line - 2) line) of
          [v, k, f, s] \<Rightarrow>
            (case (parse_unsigned 32 f, parse_int64 s) of
               (Some fl, Some sz) \<Rightarrow>
                 if v = ''VALUE'' \<and> k \<noteq> [] \<and> ndest = 3
                 then (3, None, \<lparr>sc_key = k, sc_flags = of_nat fl, sc_size = of_int sz,
                                 sc_casid = 0\<rparr>)
                 else scan_failed
             | _ \<Rightarrow> scan_failed)
        | [v, k, f, s, c] \<Rightarrow>
            (case (parse_unsigned 32 f, parse_int64 s, parse_unsigned 64 c) of
               (Some fl, Some sz, Some cs) \<Rightarrow>
                 if v = ''VALUE'' \<and> k \<noteq> [] \<and> ndest = 4
                 then (4, None, \<lparr>sc_key = k, sc_flags = of_nat fl, sc_size = of_int sz,
                                 sc_casid = of_nat cs\<rparr>)
                 else scan_failed
             | _ \<Rightarrow> scan_failed)
        | _ \<Rightarrow> scan_failed)"

definition value_line :: bytes where
  "value_line = ''VALUE foo 123 6 42'' @ crlf"

text \<open>A VALUE line that declares the greatest size an \<^verbatim>\<open>int\<close> holds, \<open>2 ^ 63 - 1\<close>.\<close>

definition huge_value_line :: bytes where
  "huge_value_line = ''VALUE foo 0 9223372036854775807'' @ crlf"

lemmas eval_defs =
  serve_def bin_response_def item_bar_def msg0_def encode_header_def be16_def be32_def
  be64_def low_byte_def char_of_def bit_simps magicRecv_def magicSend_def op_defs
  Status_defs sendRecv_def send_def recv_def recv_body_def fill_header_def frame_def
  Write_def Flush_def ReadFull_def decode_header_def from_be_def newError_def verbToOp_def
  Replace_def Set_def Add_def Cas_def Incr_def Decr_def

section \<open>Properties of the binary driver\<close>

subsection \<open>What a request puts on the wire\<close>

lemma frame_not_Nil: "frame m \<noteq> []"
  by (simp add: frame_def encode_header_def)

lemma frame_head: "take 2 (frame (fill_header m)) = [CHR 0x80, low_byte (Op m)]"
  by (simp add: frame_def encode_header_def fill_header_def Let_def magicSend_def low_byte_def
      char_of_def bit_simps)

lemma send_ok:
  "\<not> werr rw \<Longrightarrow> \<not> wfail rw \<Longrightarrow>
   send rw m =
     (None, rw\<lparr>wbuf := [], wire := wire rw @ wbuf rw @ frame (fill_header m)\<rparr>, fill_header m)"
  by (simp add: send_def Write_def Flush_def Let_def frame_not_Nil)

lemma recv_wire: "wire (fst (snd (recv r m))) = wire r"
  by (simp add: recv_def ReadFull_def Let_def split: prod.splits option.splits)

lemma sendRecv_wire:
  "\<not> werr rw \<Longrightarrow> \<not> wfail rw \<Longrightarrow>
   wire (fst (snd (sendRecv rw m))) = wire rw @ wbuf rw @ frame (fill_header m)"
  by (simp add: sendRecv_def send_ok recv_wire)

subsection \<open>Status mapping\<close>

text \<open>
  C8: \<open>newError\<close> maps status 0x0000 to no error, 0x0001 to CacheMiss, 0x0002 to
  CASConflict, 0x0003 to ValueTooLarge, 0x0004 to InvalidArgs, 0x0005 to ValueNotStored,
  0x0006 to NonNumeric, 0x0020 to AuthRequired, 0x0021 to AuthContinue, 0x0081 to
  UnknownCommand, 0x0082 to OutOfMemory, and every other status to UnknownError.
\<close>

theorem newError_table:
  "newError 0x0000 = None \<and> newError 0x0001 = Some ErrCacheMiss \<and>
   newError 0x0002 = Some ErrCASConflict \<and> newError 0x0003 = Some ErrValueTooLarge \<and>
   newError 0x0004 = Some ErrInvalidArgs \<and> newError 0x0005 = Some ErrValueNotStored \<and>
   newError 0x0006 = Some ErrNonNumeric \<and> newError 0x0020 = Some ErrAuthRequired \<and>
   newError 0x0021 = Some ErrAuthContinue \<and> newError 0x0081 = Some ErrUnknownCommand \<and>
   newError 0x0082 = Some ErrOutOfMemory \<and>
   (status \<notin> {0x0000, 0x0001, 0x0002, 0x0003, 0x0004, 0x0005, 0x0006,
                0x0020, 0x0021, 0x0081, 0x0082}
      \<longrightarrow> newError status = Some ErrUnknownError)"
  by (simp add: newError_def Status_defs)

theorem newError_table_witness:
  "(0x0007 :: u16) \<notin> {0x0000, 0x0001, 0x0002, 0x0003, 0x0004, 0x0005, 0x0006,
                0x0020, 0x0021, 0x0081, 0x0082} \<and>
   newError 0x0007 = Some ErrUnknownError \<and> newError 0x0001 = Some ErrCacheMiss"
  using newError_table [of "0x0007"] by simp

subsection \<open>Conditional stores\<close>

text \<open>
  A REPLACE whose exchange does not panic returns NotStored whatever the exchange
  returned: the second disjunct of the condition in \<open>Populate\<close> does not look at the
  error.
\<close>

lemma bin_Populate_replace_always_NotStored:
  "fst (sendRecv rw (msg0\<lparr>Op := opReplace, CAS := 0,
          iextras := [X32 (Flags it), X32 (Expiration it)], key := Key it, val := Value it\<rparr>))
     \<noteq> Some Panic \<Longrightarrow>
   fst (bin_Populate rw ''replace'' it) = Some ErrNotStored"
  by (auto simp: bin_Populate_def Let_def verbToOp_def Cas_def split: prod.splits)

lemma bin_Populate_add_KeyExists:
  "fst (sendRecv rw (msg0\<lparr>Op := opAdd, CAS := 0,
          iextras := [X32 (Flags it), X32 (Expiration it)], key := Key it, val := Value it\<rparr>))
     = Some ErrCASConflict \<Longrightarrow>
   fst (bin_Populate rw ''add'' it) = Some ErrNotStored"
  by (auto simp: bin_Populate_def Let_def verbToOp_def Cas_def split: prod.splits)

text \<open>
  C1: an ADD or REPLACE store that succeeds (status 0x0000) returns success. On a
  REPLACE of the item \<open>bar\<close> that the server answers with status 0x0000 the exchange
  returns no error, and \<open>Populate\<close> returns NotStored.
\<close>

theorem bin_Populate_replace_ok_is_NotStored:
  "fst (sendRecv (serve (bin_response opReplace StatusOK []))
          (msg0\<lparr>Op := opReplace, iextras := [X32 0, X32 0], key := ''bar'', val := ''barval''\<rparr>))
     = None \<and>
   fst (bin_Populate (serve (bin_response opReplace StatusOK [])) Replace item_bar)
     = Some ErrNotStored"
  by (simp add: bin_Populate_def eval_defs)

subsection \<open>Counters\<close>

text \<open>
  C2: an Increment whose response has status OK and a value that is not 8 bytes long
  returns a protocol error and never the pair (0, success). On an increment that the
  server answers with status 0x0000 and the 4-byte value 00 00 00 32, \<open>readInt\<close> gives
  an error and \<open>IncrDecr\<close> returns 0 with no error.
\<close>

theorem bin_IncrDecr_short_value_is_zero_ok:
  "snd (readInt [CHR 0x00, CHR 0x00, CHR 0x00, CHR 0x32]) \<noteq> None \<and>
   fst (bin_IncrDecr
          (serve (bin_response opIncrement StatusOK [CHR 0x00, CHR 0x00, CHR 0x00, CHR 0x32]))
          Incr ''num'' 8) = (0, None)"
  by (simp add: bin_IncrDecr_def readInt_def eval_defs)

subsection \<open>Unknown verbs\<close>

text \<open>
  C9: for every verb that is not one of set, add, replace, cas, incr, decr, \<open>verbToOp\<close>
  returns the VERSION opcode, and \<open>Populate\<close> and \<open>IncrDecr\<close> with such a verb do not
  reject it: what they return is the error of the exchange of a VERSION request, on
  every connection, and on a connection that accepts writes they put on the wire a
  request frame whose first two bytes are the request magic 0x80 and the opcode 0x0b of
  VERSION.
\<close>

theorem verbToOp_unknown_sends_version:
  assumes "verb \<notin> {''set'', ''add'', ''replace'', ''cas'', ''incr'', ''decr''}"
  shows "verbToOp verb = opVersion \<and>
    fst (bin_Populate rw verb it) =
      fst (sendRecv rw (msg0\<lparr>Op := opVersion,
             iextras := [X32 (Flags it), X32 (Expiration it)],
             key := Key it, val := Value it\<rparr>)) \<and>
    snd (fst (bin_IncrDecr rw verb k delta)) =
      fst (sendRecv rw (msg0\<lparr>Op := opVersion,
             iextras := [X64 delta, X64 0, X32 0xffffffff], key := k\<rparr>)) \<and>
    (\<not> werr rw \<and> \<not> wfail rw \<longrightarrow>
       (let req = frame (fill_header (msg0\<lparr>Op := opVersion,
                    iextras := [X32 (Flags it), X32 (Expiration it)],
                    key := Key it, val := Value it\<rparr>))
        in wire (snd (bin_Populate rw verb it)) = wire rw @ wbuf rw @ req \<and>
           take 2 req = [CHR 0x80, CHR 0x0B]) \<and>
       (let req = frame (fill_header (msg0\<lparr>Op := opVersion,
                    iextras := [X64 delta, X64 0, X32 0xffffffff], key := k\<rparr>))
        in wire (snd (bin_IncrDecr rw verb k delta)) = wire rw @ wbuf rw @ req \<and>
           take 2 req = [CHR 0x80, CHR 0x0B]))"
proof -
  from assms have op: "verbToOp verb = opVersion"
    by (simp add: verbToOp_def)
  from assms have nc: "verb \<noteq> Cas" "verb \<noteq> ''add''" "verb \<noteq> ''replace''"
    by (simp_all add: Cas_def)
  have v: "low_byte opVersion = CHR 0x0B"
    by (simp add: opVersion_def low_byte_def char_of_def bit_simps)
  have m: "msg0\<lparr>Op := opVersion, CAS := 0, iextras := [X32 (Flags it), X32 (Expiration it)],
                key := Key it, val := Value it\<rparr> =
           msg0\<lparr>Op := opVersion, iextras := [X32 (Flags it), X32 (Expiration it)],
                key := Key it, val := Value it\<rparr>"
    by (simp add: msg0_def)
  have pe: "fst (bin_Populate rw verb it) =
      fst (sendRecv rw (msg0\<lparr>Op := opVersion,
             iextras := [X32 (Flags it), X32 (Expiration it)],
             key := Key it, val := Value it\<rparr>))"
    using nc op by (auto simp: bin_Populate_def Let_def m split: prod.splits)
  have pc: "snd (bin_Populate rw verb it) =
      fst (snd (sendRecv rw (msg0\<lparr>Op := opVersion,
             iextras := [X32 (Flags it), X32 (Expiration it)],
             key := Key it, val := Value it\<rparr>)))"
    using nc op by (auto simp: bin_Populate_def Let_def m split: prod.splits)
  have ie: "snd (fst (bin_IncrDecr rw verb k delta)) =
      fst (sendRecv rw (msg0\<lparr>Op := opVersion,
             iextras := [X64 delta, X64 0, X32 0xffffffff], key := k\<rparr>))"
    using op by (auto simp: bin_IncrDecr_def Let_def split: prod.splits option.splits)
  have ic: "snd (bin_IncrDecr rw verb k delta) =
      fst (snd (sendRecv rw (msg0\<lparr>Op := opVersion,
             iextras := [X64 delta, X64 0, X32 0xffffffff], key := k\<rparr>)))"
    using op by (auto simp: bin_IncrDecr_def Let_def split: prod.splits option.splits)
  show ?thesis
    by (simp add: op pe ie pc ic Let_def frame_head v sendRecv_wire)
qed

theorem verbToOp_unknown_sends_version_witness:
  "''bogus'' \<notin> {''set'', ''add'', ''replace'', ''cas'', ''incr'', ''decr''} \<and>
   verbToOp ''bogus'' = opVersion \<and>
   wire (snd (bin_Populate (serve (bin_response opVersion StatusOK ''1.6.21'')) ''bogus'' item_bar)) =
     [CHR 0x80, CHR 0x0B, CHR 0x00, CHR 0x03, CHR 0x08, CHR 0x00, CHR 0x00, CHR 0x00,
      CHR 0x00, CHR 0x00, CHR 0x00, CHR 0x11, CHR 0x00, CHR 0x00, CHR 0x00, CHR 0x00,
      CHR 0x00, CHR 0x00, CHR 0x00, CHR 0x00, CHR 0x00, CHR 0x00, CHR 0x00, CHR 0x00,
      CHR 0x00, CHR 0x00, CHR 0x00, CHR 0x00, CHR 0x00, CHR 0x00, CHR 0x00, CHR 0x00] @
     ''barbarval'' \<and>
   fst (bin_Populate (serve (bin_response opVersion StatusOK ''1.6.21'')) ''bogus'' item_bar) = None"
  using verbToOp_unknown_sends_version
    [where verb = "''bogus''" and rw = "serve (bin_response opVersion StatusOK ''1.6.21'')"
       and it = item_bar and delta = 0 and k = "[]"]
  apply (simp add: Let_def)
  apply (simp add: eval_defs bin_Populate_def)
  done

section \<open>Properties of the text driver\<close>

subsection \<open>Writing a request and reading a line\<close>

lemma ReadSlice_wbuf:
  "ReadSlice (c\<lparr>wbuf := a\<rparr>) d =
     (case ReadSlice c d of (l, e, c1) \<Rightarrow> (l, e, c1\<lparr>wbuf := a\<rparr>))"
  by (simp add: ReadSlice_def Let_def)

lemma ReadSlice_wire:
  "ReadSlice (c\<lparr>wire := a\<rparr>) d =
     (case ReadSlice c d of (l, e, c1) \<Rightarrow> (l, e, c1\<lparr>wire := a\<rparr>))"
  by (simp add: ReadSlice_def Let_def)

lemma write_flush_ok:
  "\<not> werr rw \<Longrightarrow> \<not> wfail rw \<Longrightarrow> p \<noteq> [] \<Longrightarrow>
   Write rw p = (None, rw\<lparr>wbuf := wbuf rw @ p\<rparr>) \<and>
   Flush (rw\<lparr>wbuf := wbuf rw @ p\<rparr>) =
     (None, rw\<lparr>wbuf := [], wire := wire rw @ wbuf rw @ p\<rparr>)"
  by (simp add: Write_def Flush_def)

lemma writeReadLine_ok:
  assumes "\<not> werr rw" and "\<not> wfail rw" and "req \<noteq> []"
    and "ReadSlice rw LF = (line, e, rw1)"
  shows "writeReadLine rw req =
           (line, e, rw1\<lparr>wbuf := [], wire := wire rw @ wbuf rw @ req\<rparr>)"
  using assms by (simp add: writeReadLine_def write_flush_ok ReadSlice_wbuf ReadSlice_wire)

subsection \<open>Key legality\<close>

lemma legal_bytes_iff:
  "legal_bytes k \<longleftrightarrow> (\<forall>b\<in>set k. (0x20 :: nat) < of_char b \<and> b \<noteq> CHR 0x7F)"
  by (induction k) auto

text \<open>
  C5: the text driver's key-legality predicate holds exactly for the keys of length at
  most 250 all of whose bytes are greater than 0x20 and different from 0x7F; for every
  item whose key violates it, \<open>Populate\<close> returns MalformedKey and leaves the
  connection as it was: nothing is written, buffered or read.
\<close>

theorem text_LegalKey_and_Populate_rejects:
  "(text_LegalKey k \<longleftrightarrow>
      length k \<le> 250 \<and> (\<forall>b\<in>set k. (0x20 :: nat) < of_char b \<and> b \<noteq> CHR 0x7F)) \<and>
   (\<not> text_LegalKey (Key it) \<longrightarrow> text_Populate rw verb it = (Some ErrMalformedKey, rw))"
  by (auto simp: text_LegalKey_def legal_bytes_iff text_Populate_def)

theorem text_LegalKey_and_Populate_rejects_witness:
  "text_LegalKey ''foo'' \<and> \<not> text_LegalKey (Key item_foo_bar) \<and>
   text_Populate (serve []) Set item_foo_bar = (Some ErrMalformedKey, serve [])"
  using text_LegalKey_and_Populate_rejects [of "''foo''" item_foo_bar "serve []" Set]
  by (simp add: item_foo_bar_def text_LegalKey_def)

subsection \<open>Stores\<close>

lemma text_Populate_ok:
  assumes "text_LegalKey (Key it)" and "\<not> werr rw" and "\<not> wfail rw"
    and "ReadSlice rw LF = (line, None, rw1)"
  shows "text_Populate rw verb it =
    (if line = resultStored then None
     else if line = resultNotStored then Some ErrNotStored
     else if line = resultExists then Some ErrCASConflict
     else if line = resultNotFound then Some ErrCacheMiss
     else Some (Errorf ''memcache: unexpected response line from %q: %q'' [verb, line]),
     rw1\<lparr>wbuf := [],
         wire := wire rw @ wbuf rw @
           (verb @ '' '' @ Key it @ '' '' @ dec_nat (unat (Flags it)) @ '' '' @
            dec_int (sint (Expiration it)) @ '' '' @ dec_nat (length (Value it)) @
            (if verb = ''cas'' then '' '' @ dec_nat (unat (Casid it)) else []) @ crlf) @
           Value it @ crlf\<rparr>)"
  using assms
  by (simp add: text_Populate_def Write_def Flush_def ReadSlice_wbuf ReadSlice_wire Cas_def
      crlf_def)

text \<open>
  C6: for a store through the text driver's \<open>Populate\<close> (legal key, a connection that
  accepts writes, a response line read), the line STORED yields success, NOT_STORED
  yields NotStored, EXISTS yields CASConflict, NOT_FOUND yields CacheMiss and any other
  line a protocol error; the request on the wire is the line
  \<^verbatim>\<open><verb> <key> <flags> <exp> <size>\<close>, followed by the cas token if and only if the verb
  is cas, then CRLF, the value and CRLF.
\<close>

theorem text_Populate_response_and_request:
  assumes "text_LegalKey (Key it)" and "\<not> werr rw" and "\<not> wfail rw"
    and "ReadSlice rw LF = (line, None, rw1)"
  shows "(line = ''STORED'' @ crlf \<longrightarrow> fst (text_Populate rw verb it) = None) \<and>
    (line = ''NOT_STORED'' @ crlf \<longrightarrow> fst (text_Populate rw verb it) = Some ErrNotStored) \<and>
    (line = ''EXISTS'' @ crlf \<longrightarrow> fst (text_Populate rw verb it) = Some ErrCASConflict) \<and>
    (line = ''NOT_FOUND'' @ crlf \<longrightarrow> fst (text_Populate rw verb it) = Some ErrCacheMiss) \<and>
    (line \<notin> {''STORED'' @ crlf, ''NOT_STORED'' @ crlf, ''EXISTS'' @ crlf, ''NOT_FOUND'' @ crlf}
       \<longrightarrow> is_protocol_error (fst (text_Populate rw verb it))) \<and>
    wire (snd (text_Populate rw verb it)) =
      wire rw @ wbuf rw @
      verb @ '' '' @ Key it @ '' '' @ dec_nat (unat (Flags it)) @ '' '' @
      dec_int (sint (Expiration it)) @ '' '' @ dec_nat (length (Value it)) @
      (if verb = ''cas'' then '' '' @ dec_nat (unat (Casid it)) else []) @ crlf @
      Value it @ crlf"
  unfolding text_Populate_ok [OF assms]
  by (simp add: resultStored_def resultNotStored_def resultExists_def resultNotFound_def)

theorem text_Populate_response_and_request_witness:
  "text_LegalKey (Key item_foo) \<and> \<not> werr (serve (''EXISTS'' @ crlf)) \<and>
   \<not> wfail (serve (''EXISTS'' @ crlf)) \<and>
   ReadSlice (serve (''EXISTS'' @ crlf)) LF = (''EXISTS'' @ crlf, None, serve []) \<and>
   fst (text_Populate (serve (''EXISTS'' @ crlf)) Cas item_foo) = Some ErrCASConflict \<and>
   wire (snd (text_Populate (serve (''EXISTS'' @ crlf)) Cas item_foo)) =
     ''cas foo 123 0 6 42'' @ crlf @ ''fooval'' @ crlf \<and>
   ReadSlice (serve (''STORED'' @ crlf)) LF = (''STORED'' @ crlf, None, serve []) \<and>
   fst (text_Populate (serve (''STORED'' @ crlf)) Set item_foo) = None \<and>
   wire (snd (text_Populate (serve (''STORED'' @ crlf)) Set item_foo)) =
     ''set foo 123 0 6'' @ crlf @ ''fooval'' @ crlf \<and>
   ReadSlice (serve (''ERROR'' @ crlf)) LF = (''ERROR'' @ crlf, None, serve []) \<and>
   is_protocol_error (fst (text_Populate (serve (''ERROR'' @ crlf)) Add item_foo))"
proof -
  have k: "text_LegalKey (Key item_foo)"
    by (simp add: item_foo_def text_LegalKey_def)
  have w: "\<not> werr (serve x)" "\<not> wfail (serve x)" for x
    by (simp_all add: serve_def)
  have r1: "ReadSlice (serve (''EXISTS'' @ crlf)) LF = (''EXISTS'' @ crlf, None, serve [])"
    by (simp add: serve_def ReadSlice_def crlf_def LF_def CR_def)
  have r2: "ReadSlice (serve (''STORED'' @ crlf)) LF = (''STORED'' @ crlf, None, serve [])"
    by (simp add: serve_def ReadSlice_def crlf_def LF_def CR_def)
  have r3: "ReadSlice (serve (''ERROR'' @ crlf)) LF = (''ERROR'' @ crlf, None, serve [])"
    by (simp add: serve_def ReadSlice_def crlf_def LF_def CR_def)
  show ?thesis
    using text_Populate_response_and_request [OF k w r1, of Cas]
      text_Populate_response_and_request [OF k w r2, of Set]
      text_Populate_response_and_request [OF k w r3, of Add] k r1 r2 r3
    by (simp add: item_foo_def serve_def dec_int_def Cas_def Set_def Add_def crlf_def
        dec_nat.simps char_of_def bit_simps)
qed

subsection \<open>Delete\<close>

lemma writeExpectf_ok:
  assumes "\<not> werr rw" and "\<not> wfail rw" and "req \<noteq> []"
    and "ReadSlice rw LF = (line, None, rw1)"
  shows "writeExpectf rw expect req =
    (if line = resultOK then None
     else if line = expect then None
     else if line = resultNotStored then Some ErrNotStored
     else if line = resultExists then Some ErrCASConflict
     else if line = resultNotFound then Some ErrCacheMiss
     else Some (Errorf ''memcache: unexpected response line: %q'' [line]),
     rw1\<lparr>wbuf := [], wire := wire rw @ wbuf rw @ req\<rparr>)"
  by (simp add: writeExpectf_def writeReadLine_ok [OF assms])

text \<open>
  C10: for a Delete on the text driver (a connection that accepts writes, a response
  line read), DELETED yields success and NOT_FOUND CacheMiss, and moreover OK yields
  success, NOT_STORED yields NotStored and EXISTS yields CASConflict; Delete, DeleteAll
  and FlushAll are the one classifier \<open>writeExpectf\<close>, called with the expected line
  DELETED, DELETED and OK.
\<close>

theorem text_Delete_response:
  assumes "\<not> werr rw" and "\<not> wfail rw" and "ReadSlice rw LF = (line, None, rw1)"
  shows "(line = ''DELETED'' @ crlf \<longrightarrow> fst (text_Delete rw k) = None) \<and>
    (line = ''NOT_FOUND'' @ crlf \<longrightarrow> fst (text_Delete rw k) = Some ErrCacheMiss) \<and>
    (line = ''OK'' @ crlf \<longrightarrow> fst (text_Delete rw k) = None) \<and>
    (line = ''NOT_STORED'' @ crlf \<longrightarrow> fst (text_Delete rw k) = Some ErrNotStored) \<and>
    (line = ''EXISTS'' @ crlf \<longrightarrow> fst (text_Delete rw k) = Some ErrCASConflict) \<and>
    writeExpectf rw (''DELETED'' @ crlf) (''delete '' @ k @ crlf) = text_Delete rw k \<and>
    writeExpectf rw (''DELETED'' @ crlf) (''flush_all'' @ crlf) = text_DeleteAll rw \<and>
    writeExpectf rw (''OK'' @ crlf) (''flush_all'' @ crlf) = text_FlushAll rw"
proof -
  have ne: "''delete '' @ k @ crlf \<noteq> []" by simp
  show ?thesis
    unfolding text_Delete_def text_DeleteAll_def text_FlushAll_def
      writeExpectf_ok [OF assms(1,2) ne assms(3)]
    by (simp add: resultOK_def resultDeleted_def resultNotStored_def resultExists_def
        resultNotFound_def)
qed

theorem text_Delete_response_witness:
  "\<not> werr (serve (''OK'' @ crlf)) \<and> \<not> wfail (serve (''OK'' @ crlf)) \<and>
   ReadSlice (serve (''OK'' @ crlf)) LF = (''OK'' @ crlf, None, serve []) \<and>
   fst (text_Delete (serve (''OK'' @ crlf)) ''foo'') = None \<and>
   ReadSlice (serve (''NOT_STORED'' @ crlf)) LF = (''NOT_STORED'' @ crlf, None, serve []) \<and>
   fst (text_Delete (serve (''NOT_STORED'' @ crlf)) ''foo'') = Some ErrNotStored \<and>
   ReadSlice (serve (''EXISTS'' @ crlf)) LF = (''EXISTS'' @ crlf, None, serve []) \<and>
   fst (text_Delete (serve (''EXISTS'' @ crlf)) ''foo'') = Some ErrCASConflict"
proof -
  have w: "\<not> werr (serve x)" "\<not> wfail (serve x)" for x
    by (simp_all add: serve_def)
  have r1: "ReadSlice (serve (''OK'' @ crlf)) LF = (''OK'' @ crlf, None, serve [])"
    by (simp add: serve_def ReadSlice_def crlf_def LF_def CR_def)
  have r2: "ReadSlice (serve (''NOT_STORED'' @ crlf)) LF = (''NOT_STORED'' @ crlf, None, serve [])"
    by (simp add: serve_def ReadSlice_def crlf_def LF_def CR_def)
  have r3: "ReadSlice (serve (''EXISTS'' @ crlf)) LF = (''EXISTS'' @ crlf, None, serve [])"
    by (simp add: serve_def ReadSlice_def crlf_def LF_def CR_def)
  show ?thesis
    using text_Delete_response [OF w r1, of "''foo''"] text_Delete_response [OF w r2, of "''foo''"]
      text_Delete_response [OF w r3, of "''foo''"] w r1 r2 r3
    by simp
qed

subsection \<open>Touch\<close>

text \<open>
  C4 as stated: the text driver does not support Touch, and invoking it performs no
  touch exchange. On a connection whose server answers TOUCHED, \<open>Touch\<close> of the key
  \<open>foo\<close> with expiration 2 puts the command \<^verbatim>\<open>touch foo 2\<close> on the wire, reads the
  answer and returns success.
\<close>

theorem text_Touch_exchange_counterexample:
  "text_Touch (serve (''TOUCHED'' @ crlf)) [''foo''] 2 =
     (None, (serve [])\<lparr>wire := ''touch foo 2'' @ crlf\<rparr>)"
  by (simp add: serve_def Write_def Flush_def ReadSlice_def dec_int_def dec_nat.simps
      char_of_def bit_simps result_defs)

lemma text_Touch_results:
  "fst (text_Touch rw ks expiration) \<in>
     {None, Some ErrCacheMiss, Some ErrTransport, Some EOF, Some ErrBufferFull} \<or>
   (\<exists>line. fst (text_Touch rw ks expiration) =
      Some (Errorf ''memcache: unexpected response line from touch: %q'' [line]))"
proof (induction ks arbitrary: rw)
  case Nil
  show ?case by simp
next
  case (Cons k ks)
  show ?case
  proof (cases "werr rw")
    case True
    then show ?thesis by (simp add: Write_def)
  next
    case False
    note w = this
    show ?thesis
    proof (cases "wfail rw")
      case True
      with w show ?thesis by (simp add: Write_def Flush_def)
    next
      case False
      obtain line e rw1 where r: "ReadSlice rw LF = (line, e, rw1)"
        by (cases "ReadSlice rw LF") auto
      show ?thesis
      proof (cases e)
        case None
        with w False r Cons.IH show ?thesis
          by (simp add: Write_def Flush_def ReadSlice_wbuf ReadSlice_wire)
      next
        case (Some err)
        with r have "err = EOF \<or> err = ErrBufferFull"
          by (auto simp: ReadSlice_def Let_def split: if_splits)
        with w False r Some show ?thesis
          by (auto simp: Write_def Flush_def ReadSlice_wbuf ReadSlice_wire)
      qed
    qed
  qed
qed

lemma text_Touch_Cons:
  "text_Touch rw (k # keys) expiration =
   (let req = ''touch '' @ k @ '' '' @ dec_int (sint expiration) @ crlf
    in if werr rw then (Some ErrTransport, rw)
       else if wfail rw then (Some ErrTransport, rw\<lparr>wbuf := wbuf rw @ req, werr := True\<rparr>)
       else
         (case ReadSlice rw LF of
            (line, err, rw1) \<Rightarrow>
              (let rw2 = rw1\<lparr>wire := wire rw @ wbuf rw @ req, wbuf := []\<rparr>
               in if err \<noteq> None then (err, rw2)
                  else if line = ''TOUCHED'' @ crlf then text_Touch rw2 keys expiration
                  else if line = ''NOT_FOUND'' @ crlf then (Some ErrCacheMiss, rw2)
                  else (Some (Errorf ''memcache: unexpected response line from touch: %q''
                                [line]), rw2))))"
proof (cases "werr rw")
  case True
  then show ?thesis by (simp add: Write_def)
next
  case False
  note w = this
  show ?thesis
  proof (cases "wfail rw")
    case True
    with w show ?thesis by (simp add: Write_def Flush_def)
  next
    case False
    obtain line e rw1 where r: "ReadSlice rw LF = (line, e, rw1)"
      by (cases "ReadSlice rw LF") auto
    show ?thesis
    proof (cases e)
      case None
      with w False r show ?thesis
        by (simp add: Write_def Flush_def ReadSlice_wbuf ReadSlice_wire resultTouched_def
            resultNotFound_def)
    next
      case (Some err)
      with w False r show ?thesis
        by (simp add: Write_def Flush_def ReadSlice_wbuf ReadSlice_wire)
    qed
  qed
qed

text \<open>
  C4, amended: the text driver implements Touch. Without keys it returns success and
  touches nothing. For the first key it writes \<^verbatim>\<open>touch <key> <exp>\<close> and CRLF and
  flushes: a writer in error or a transport that refuses the flush returns the
  transport's error. Then it reads one line: a read error is returned as it is; on
  TOUCHED it goes on with the remaining keys, on NOT_FOUND it returns CacheMiss, and on
  any other line an error naming the unexpected line. These are all its results, for
  every connection and every list of keys: there is no answer that Touch is not
  supported.
\<close>

theorem text_Touch_exchange:
  "text_Touch rw [] expiration = (None, rw) \<and>
   text_Touch rw (k # keys) expiration =
     (let req = ''touch '' @ k @ '' '' @ dec_int (sint expiration) @ crlf
      in if werr rw then (Some ErrTransport, rw)
         else if wfail rw then (Some ErrTransport, rw\<lparr>wbuf := wbuf rw @ req, werr := True\<rparr>)
         else
           (case ReadSlice rw LF of
              (line, err, rw1) \<Rightarrow>
                (let rw2 = rw1\<lparr>wire := wire rw @ wbuf rw @ req, wbuf := []\<rparr>
                 in if err \<noteq> None then (err, rw2)
                    else if line = ''TOUCHED'' @ crlf then text_Touch rw2 keys expiration
                    else if line = ''NOT_FOUND'' @ crlf then (Some ErrCacheMiss, rw2)
                    else (Some (Errorf ''memcache: unexpected response line from touch: %q''
                                  [line]), rw2)))) \<and>
   (fst (text_Touch rw ks expiration) \<in>
      {None, Some ErrCacheMiss, Some ErrTransport, Some EOF, Some ErrBufferFull} \<or>
    (\<exists>line. fst (text_Touch rw ks expiration) =
       Some (Errorf ''memcache: unexpected response line from touch: %q'' [line])))"
  using text_Touch_Cons [of rw k keys expiration] text_Touch_results [of rw ks expiration]
  by simp

theorem text_Touch_exchange_witness:
  "text_Touch (serve (''NOT_FOUND'' @ crlf)) [''foo'', ''bar''] 2 =
     (Some ErrCacheMiss, (serve [])\<lparr>wire := ''touch foo 2'' @ crlf\<rparr>) \<and>
   text_Touch ((serve (''TOUCHED'' @ crlf))\<lparr>wfail := True\<rparr>) [''foo''] 2 =
     (Some ErrTransport,
      (serve (''TOUCHED'' @ crlf))\<lparr>wbuf := ''touch foo 2'' @ crlf, wfail := True, werr := True\<rparr>) \<and>
   text_Touch (serve ''TOUCH'') [''foo''] 2 =
     (Some EOF, (serve [])\<lparr>wire := ''touch foo 2'' @ crlf\<rparr>)"
  using text_Touch_exchange [of "serve (''NOT_FOUND'' @ crlf)" 2 "''foo''" "[''bar'']" "[]"]
    text_Touch_exchange [of "(serve (''TOUCHED'' @ crlf))\<lparr>wfail := True\<rparr>" 2 "''foo''" "[]" "[]"]
    text_Touch_exchange [of "serve ''TOUCH''" 2 "''foo''" "[]" "[]"]
  by (simp add: serve_def ReadSlice_def dec_int_def dec_nat.simps char_of_def bit_simps
      crlf_def CR_def LF_def Let_def del: text_Touch.simps)

subsection \<open>Retrieval\<close>

lemma HasSuffix_take:
  "n + 2 \<le> length xs \<Longrightarrow> HasSuffix (take (n + 2) xs) crlf \<longleftrightarrow> take 2 (drop n xs) = crlf"
  by (simp add: HasSuffix_def crlf_def drop_take min_def)

lemma size_in_range:
  assumes "n + 2 \<le> maxAlloc"
  shows "unat (of_nat n + 2 :: u64) = n + 2" and "sint (of_nat n + 2 :: u64) = int n + 2"
    and "sint (of_nat n :: u64) = int n" and "\<not> make_panics (of_nat n + 2)"
proof -
  from assms have b: "n + 2 < 2 ^ 63" "n + 2 \<le> 2 ^ 48"
    by (simp_all add: maxAlloc_def)
  have e: "(of_nat n + 2 :: u64) = of_nat (n + 2)" by simp
  from b show u: "unat (of_nat n + 2 :: u64) = n + 2"
    unfolding e by (simp only: unat_of_nat) simp
  have "signed_take_bit 63 (int (n + 2)) = int (n + 2)"
    using b by (intro signed_take_bit_int_eq_self) simp_all
  then show s: "sint (of_nat n + 2 :: u64) = int n + 2"
    unfolding e by (simp only: signed_of_nat) simp
  have "signed_take_bit 63 (int n) = int n"
    using b by (intro signed_take_bit_int_eq_self) simp_all
  then show "sint (of_nat n :: u64) = int n"
    by (simp only: signed_of_nat) simp
  from u s assms show "\<not> make_panics (of_nat n + 2)"
    by (simp add: make_panics_def)
qed

lemma parseGetResponse_panics:
  assumes "ReadSlice r LF = (line, None, r1)" and "line \<noteq> resultEnd"
    and "scanGetResponseLine Sscanf line item0 = (sz, None, it)" and "make_panics (sz + 2)"
  shows "parseGetResponse Sscanf r cb = (Some Panic, r1, cb)"
  by (subst parseGetResponse.simps) (simp add: assms)

text \<open>
  C7 as stated: for every VALUE record that declares \<open>size\<close> bytes the parser reads
  \<open>size + 2\<close> bytes and returns a protocol error when the trailing CRLF is absent. On a
  record that declares \<open>2 ^ 63 - 1\<close> bytes, the sum \<open>size + 2\<close> wraps around to a
  negative length; \<^verbatim>\<open>make\<close> panics and no payload byte is read.
\<close>

theorem parseGetResponse_huge_size_counterexample:
  "scanGetResponseLine sample_Sscanf huge_value_line item0 =
     (0x7FFFFFFFFFFFFFFF, None, item0\<lparr>Key := ''foo''\<rparr>) \<and>
   parseGetResponse sample_Sscanf (serve (huge_value_line @ ''fooval'' @ crlf)) [] =
     (Some Panic, serve (''fooval'' @ crlf), [])"
proof -
  have sc: "scanGetResponseLine sample_Sscanf huge_value_line item0 =
     (0x7FFFFFFFFFFFFFFF, None, item0\<lparr>Key := ''foo''\<rparr>)"
    by (simp add: scanGetResponseLine_def sample_Sscanf_def huge_value_line_def crlf_def CR_def
        LF_def space_def HasSuffix_def parse_dec_def parse_unsigned_def parse_int64_def
        item0_def Let_def)
  have r: "ReadSlice (serve (huge_value_line @ ''fooval'' @ crlf)) LF =
     (huge_value_line, None, serve (''fooval'' @ crlf))"
    by (simp add: serve_def ReadSlice_def huge_value_line_def crlf_def LF_def CR_def)
  have ne: "huge_value_line \<noteq> resultEnd"
    by (simp add: huge_value_line_def resultEnd_def)
  have p: "make_panics (0x7FFFFFFFFFFFFFFF + 2)"
    by (simp add: make_panics_def)
  from sc parseGetResponse_panics [OF r ne sc p] show ?thesis
    by simp
qed

text \<open>
  C7, amended: for a VALUE record of a retrieval response that declares \<open>n\<close> bytes,
  with \<open>n + 2\<close> no more than the greatest allocation, the parser reads exactly \<open>n + 2\<close>
  bytes of payload (an error of the stream's end if there are fewer); it goes on, with
  the item delivered and its value the first \<open>n\<close> bytes, only if the last two of them
  are CRLF; otherwise it returns the error of a corrupt result and delivers nothing. A
  declared size of -1 or -2 reads one byte or none and returns that error (or the
  error of the stream's end). For every other declared size, one below -2 or one for
  which \<open>size + 2\<close> exceeds the greatest allocation or wraps around, \<^verbatim>\<open>make\<close> panics.
\<close>

theorem parseGetResponse_value_record:
  assumes "ReadSlice r LF = (line, None, r1)" and "line \<noteq> resultEnd"
    and "scanGetResponseLine Sscanf line item0 = (sz, None, it)"
  shows "(sz = of_nat n \<and> n + 2 \<le> maxAlloc \<longrightarrow>
      parseGetResponse Sscanf r cb =
       (if length (rd r1) < n + 2
        then (Some (if rd r1 = [] then EOF else ErrUnexpectedEOF), r1\<lparr>rd := []\<rparr>, cb)
        else if take 2 (drop n (rd r1)) = crlf
        then parseGetResponse Sscanf (r1\<lparr>rd := drop (n + 2) (rd r1)\<rparr>)
               (cb @ [it\<lparr>Value := take n (rd r1)\<rparr>])
        else (Some (Errorf ''memcache: corrupt get result read'' []),
              r1\<lparr>rd := drop (n + 2) (rd r1)\<rparr>, cb))) \<and>
    (sz = - 2 \<longrightarrow>
      parseGetResponse Sscanf r cb =
        (Some (Errorf ''memcache: corrupt get result read'' []), r1, cb)) \<and>
    (sz = - 1 \<longrightarrow>
      parseGetResponse Sscanf r cb =
        (if rd r1 = [] then (Some EOF, r1, cb)
         else (Some (Errorf ''memcache: corrupt get result read'' []),
               r1\<lparr>rd := tl (rd r1)\<rparr>, cb))) \<and>
    (make_panics (sz + 2) \<longrightarrow> parseGetResponse Sscanf r cb = (Some Panic, r1, cb)) \<and>
    (make_panics (sz + 2) \<or> sz = - 1 \<or> sz = - 2 \<or>
     (\<exists>m. sz = of_nat m \<and> m + 2 \<le> maxAlloc))"
proof (intro conjI impI)
  assume h: "sz = of_nat n \<and> n + 2 \<le> maxAlloc"
  then have sz: "sz = of_nat n" and le: "n + 2 \<le> maxAlloc" by simp_all
  note sr = size_in_range [OF le]
  show "parseGetResponse Sscanf r cb =
       (if length (rd r1) < n + 2
        then (Some (if rd r1 = [] then EOF else ErrUnexpectedEOF), r1\<lparr>rd := []\<rparr>, cb)
        else if take 2 (drop n (rd r1)) = crlf
        then parseGetResponse Sscanf (r1\<lparr>rd := drop (n + 2) (rd r1)\<rparr>)
               (cb @ [it\<lparr>Value := take n (rd r1)\<rparr>])
        else (Some (Errorf ''memcache: corrupt get result read'' []),
              r1\<lparr>rd := drop (n + 2) (rd r1)\<rparr>, cb))"
  proof (cases "length (rd r1) < n + 2")
    case True
    then show ?thesis
      by (subst parseGetResponse.simps) (simp add: assms sz sr ReadFull_def)
  next
    case False
    then have len: "n + 2 \<le> length (rd r1)" by simp
    have t: "take n (take (n + 2) (rd r1)) = take n (rd r1)"
      by (simp add: min_def)
    have hs: "HasSuffix (take (Suc (Suc n)) (rd r1)) crlf \<longleftrightarrow> take 2 (drop n (rd r1)) = crlf"
      using HasSuffix_take [OF len] by simp
    from False show ?thesis
      by (subst parseGetResponse.simps) (simp add: assms sz sr ReadFull_def hs t)
  qed
next
  assume "sz = - 2"
  then show "parseGetResponse Sscanf r cb =
        (Some (Errorf ''memcache: corrupt get result read'' []), r1, cb)"
    by (subst parseGetResponse.simps)
       (simp add: assms make_panics_def maxAlloc_def ReadFull_def HasSuffix_def crlf_def)
next
  assume "sz = - 1"
  then show "parseGetResponse Sscanf r cb =
        (if rd r1 = [] then (Some EOF, r1, cb)
         else (Some (Errorf ''memcache: corrupt get result read'' []),
               r1\<lparr>rd := tl (rd r1)\<rparr>, cb))"
    by (subst parseGetResponse.simps)
       (auto simp: assms make_panics_def maxAlloc_def ReadFull_def HasSuffix_def crlf_def
          Suc_le_eq drop_Suc)
next
  assume "make_panics (sz + 2)"
  with assms show "parseGetResponse Sscanf r cb = (Some Panic, r1, cb)"
    by (rule parseGetResponse_panics)
next
  show "make_panics (sz + 2) \<or> sz = - 1 \<or> sz = - 2 \<or>
     (\<exists>m. sz = of_nat m \<and> m + 2 \<le> maxAlloc)"
  proof (cases "make_panics (sz + 2)")
    case True
    then show ?thesis by simp
  next
    case False
    then have u: "unat (sz + 2) \<le> maxAlloc"
      by (simp add: make_panics_def)
    show ?thesis
    proof (cases "unat (sz + 2) < 2")
      case True
      then have c: "unat (sz + 2) = 0 \<or> unat (sz + 2) = 1" by auto
      have w: "sz + 2 = of_nat (unat (sz + 2))" by simp
      have d: "sz = (sz + 2) - 2" by simp
      from c show ?thesis
      proof
        assume "unat (sz + 2) = 0"
        with w have "sz + 2 = 0" by simp
        with d have "sz = 0 - 2" by (simp only:)
        then show ?thesis by simp
      next
        assume "unat (sz + 2) = 1"
        with w have "sz + 2 = 1" by simp
        with d have "sz = 1 - 2" by (simp only:)
        then show ?thesis by simp
      qed
    next
      case False
      define m where "m = unat (sz + 2) - 2"
      from False have m2: "m + 2 = unat (sz + 2)" by (simp add: m_def)
      have "(of_nat (m + 2) :: u64) = sz + 2"
        by (simp only: m2) simp
      then have "sz = of_nat m" by simp
      with u m2 show ?thesis by auto
    qed
  qed
qed

lemma parseGetResponse_END:
  "ReadSlice r LF = (resultEnd, None, r1) \<Longrightarrow> parseGetResponse Sscanf r cb = (None, r1, cb)"
  by (subst parseGetResponse.simps) simp

theorem parseGetResponse_value_record_witness:
  "ReadSlice (serve (value_line @ ''fooval'' @ crlf @ ''END'' @ crlf)) LF =
     (value_line, None, serve (''fooval'' @ crlf @ ''END'' @ crlf)) \<and>
   value_line \<noteq> resultEnd \<and>
   scanGetResponseLine sample_Sscanf value_line item0 = (of_nat 6, None, item_foo\<lparr>Value := []\<rparr>) \<and>
   6 + 2 \<le> maxAlloc \<and>
   parseGetResponse sample_Sscanf (serve (value_line @ ''fooval'' @ crlf @ ''END'' @ crlf)) [] =
     (None, serve [], [item_foo]) \<and>
   ReadSlice (serve (value_line @ ''fooval!'' @ crlf)) LF =
     (value_line, None, serve (''fooval!'' @ crlf)) \<and>
   parseGetResponse sample_Sscanf (serve (value_line @ ''fooval!'' @ crlf)) [] =
     (Some (Errorf ''memcache: corrupt get result read'' []), serve [LF], [])"
proof -
  have r1: "ReadSlice (serve (value_line @ ''fooval'' @ crlf @ ''END'' @ crlf)) LF =
     (value_line, None, serve (''fooval'' @ crlf @ ''END'' @ crlf))"
    by (simp add: serve_def ReadSlice_def value_line_def crlf_def LF_def CR_def)
  have r2: "ReadSlice (serve (value_line @ ''fooval!'' @ crlf)) LF =
     (value_line, None, serve (''fooval!'' @ crlf))"
    by (simp add: serve_def ReadSlice_def value_line_def crlf_def LF_def CR_def)
  have ne: "value_line \<noteq> resultEnd"
    by (simp add: value_line_def resultEnd_def)
  have sc: "scanGetResponseLine sample_Sscanf value_line item0 =
      (of_nat 6, None, item_foo\<lparr>Value := []\<rparr>)"
    by (simp add: scanGetResponseLine_def sample_Sscanf_def value_line_def crlf_def CR_def LF_def
        space_def HasSuffix_def parse_dec_def parse_unsigned_def parse_int64_def item0_def
        item_foo_def Let_def)
  have ma: "6 + 2 \<le> maxAlloc"
    by (simp add: maxAlloc_def)
  have e: "parseGetResponse sample_Sscanf (serve (''END'' @ crlf)) cb = (None, serve [], cb)" for cb
    by (rule parseGetResponse_END) (simp add: serve_def ReadSlice_def resultEnd_def crlf_def LF_def CR_def)
  have s: "(serve x)\<lparr>rd := y\<rparr> = serve y" "rd (serve x) = x" for x y
    by (simp_all add: serve_def)
  show ?thesis
    using parseGetResponse_value_record [OF r1 ne sc, of 6 "[]"]
      parseGetResponse_value_record [OF r2 ne sc, of 6 "[]"] r1 r2 ne sc ma e [of "[item_foo]"]
    by (simp add: s crlf_def item_foo_def LF_def CR_def)
qed

section \<open>The empty key\<close>

subsection \<open>The errors an exchange can return\<close>

lemma read_oextras_errors:
  "read_oextras es buf = Inl e \<Longrightarrow> e = EOF \<or> e = ErrUnexpectedEOF"
  by (induction es arbitrary: buf) (auto simp: Let_def split: if_splits sum.splits prod.splits)

lemma newError_not_Malformed: "newError s \<noteq> Some ErrMalformedKey"
  by (simp add: newError_def)

lemma recv_body_not_Malformed: "recv_body m bd = (e, m1) \<Longrightarrow> e \<noteq> Some ErrMalformedKey"
  by (auto simp: recv_body_def Let_def newError_not_Malformed
      split: sum.splits prod.splits if_splits dest: read_oextras_errors)

lemma ReadFull_errors: "ReadFull c n = (l, Some e, c1) \<Longrightarrow> e = EOF \<or> e = ErrUnexpectedEOF"
  by (auto simp: ReadFull_def split: if_splits)

lemma recv_not_Malformed: "recv r m = (e, r1, m1) \<Longrightarrow> e \<noteq> Some ErrMalformedKey"
  unfolding recv_def Let_def
  by (auto split: prod.splits option.splits dest: recv_body_not_Malformed ReadFull_errors)

lemma Write_errors: "Write c p = (Some e, c1) \<Longrightarrow> e = ErrTransport"
  by (auto simp: Write_def split: if_splits)

lemma Flush_errors: "Flush c = (Some e, c1) \<Longrightarrow> e = ErrTransport"
  by (auto simp: Flush_def split: if_splits)

lemma send_not_Malformed: "send rw m = (e, rw1, m1) \<Longrightarrow> e \<noteq> Some ErrMalformedKey"
  unfolding send_def Let_def
  by (auto split: prod.splits option.splits dest: Write_errors Flush_errors)

lemma sendRecv_not_Malformed: "sendRecv rw m = (e, rw1, m1) \<Longrightarrow> e \<noteq> Some ErrMalformedKey"
  unfolding sendRecv_def
  by (auto split: prod.splits option.splits dest: send_not_Malformed recv_not_Malformed)

lemma bin_Populate_not_Malformed: "fst (bin_Populate rw verb it) \<noteq> Some ErrMalformedKey"
  unfolding bin_Populate_def Let_def
  by (auto split: prod.splits dest: sendRecv_not_Malformed)

lemma bin_IncrDecr_not_Malformed:
  "snd (fst (bin_IncrDecr rw verb k delta)) \<noteq> Some ErrMalformedKey"
  unfolding bin_IncrDecr_def Let_def
  by (auto split: prod.splits option.splits dest: sendRecv_not_Malformed)

lemma bin_DeleteCas_not_Malformed: "fst (bin_DeleteCas rw k cas) \<noteq> Some ErrMalformedKey"
  unfolding bin_DeleteCas_def
  by (auto split: prod.splits dest: sendRecv_not_Malformed)

lemma getOne_not_Malformed: "getOne rw k cb = (e, rw1, cb1) \<Longrightarrow> e \<noteq> Some ErrMalformedKey"
  unfolding getOne_def Let_def
  by (auto split: prod.splits option.splits dest: sendRecv_not_Malformed)

lemma bin_Get_loop_not_Malformed:
  "err \<noteq> Some ErrMalformedKey \<Longrightarrow> fst (bin_Get_loop rw ks cb err) \<noteq> Some ErrMalformedKey"
proof (induction ks arbitrary: rw cb err)
  case Nil
  then show ?case by simp
next
  case (Cons k ks)
  obtain eg rw1 cb1 where g: "getOne rw k cb = (eg, rw1, cb1)"
    by (cases "getOne rw k cb") auto
  from getOne_not_Malformed [OF g] Cons.prems
  have "(if eg \<noteq> None \<and> eg \<noteq> Some ErrCacheMiss then eg else err) \<noteq> Some ErrMalformedKey"
    by simp
  from Cons.IH [OF this] g show ?case by simp
qed

lemma bin_Touch_loop_not_Malformed: "fst (bin_Touch_loop rw m ks) \<noteq> Some ErrMalformedKey"
proof (induction ks arbitrary: rw m)
  case Nil
  show ?case by simp
next
  case (Cons k ks)
  obtain e rw1 m1 where s: "sendRecv rw (m\<lparr>key := k\<rparr>) = (e, rw1, m1)"
    by (cases "sendRecv rw (m\<lparr>key := k\<rparr>)") auto
  from sendRecv_not_Malformed [OF s] Cons.IH s show ?case
    by (cases e) simp_all
qed

lemma ReadSlice_errors: "ReadSlice c d = (l, Some e, c1) \<Longrightarrow> e = EOF \<or> e = ErrBufferFull"
  by (auto simp: ReadSlice_def Let_def split: if_splits)

lemma ReadSlice_keeps_wire: "ReadSlice c d = (l, e, c1) \<Longrightarrow> wire c1 = wire c"
  by (auto simp: ReadSlice_def Let_def split: if_splits)

lemma ReadFull_keeps_wire: "ReadFull c n = (l, e, c1) \<Longrightarrow> wire c1 = wire c"
  by (auto simp: ReadFull_def split: if_splits)

lemma text_Populate_legal_exchange:
  assumes k: "text_LegalKey (Key it)"
  shows "fst (text_Populate rw verb it) \<noteq> Some ErrMalformedKey \<and>
    (\<not> werr rw \<and> \<not> wfail rw \<longrightarrow>
       wire (snd (text_Populate rw verb it)) =
         wire rw @ wbuf rw @
           (verb @ '' '' @ Key it @ '' '' @ dec_nat (unat (Flags it)) @ '' '' @
            dec_int (sint (Expiration it)) @ '' '' @ dec_nat (length (Value it)) @
            (if verb = ''cas'' then '' '' @ dec_nat (unat (Casid it)) else []) @ crlf) @
           Value it @ crlf)"
proof (cases "werr rw")
  case True
  with k show ?thesis
    by (simp add: text_Populate_def Write_def)
next
  case False
  note w = this
  show ?thesis
  proof (cases "wfail rw")
    case True
    with k w show ?thesis
      by (simp add: text_Populate_def Write_def Flush_def)
  next
    case False
    obtain line e rw1 where r: "ReadSlice rw LF = (line, e, rw1)"
      by (cases "ReadSlice rw LF") auto
    show ?thesis
    proof (cases e)
      case None
      with r have "ReadSlice rw LF = (line, None, rw1)" by simp
      from text_Populate_ok [OF k w False this] w False show ?thesis by simp
    next
      case (Some err)
      with r have "err = EOF \<or> err = ErrBufferFull"
        by (auto dest: ReadSlice_errors)
      with k w False r Some ReadSlice_keeps_wire [OF r] show ?thesis
        by (auto simp: text_Populate_def Write_def Flush_def ReadSlice_wbuf ReadSlice_wire
            Cas_def crlf_def)
    qed
  qed
qed

lemma writeReadLine_errors:
  "writeReadLine rw req = (l, Some e, rw1) \<Longrightarrow> e = ErrTransport \<or> e = EOF \<or> e = ErrBufferFull"
  unfolding writeReadLine_def
  by (auto split: prod.splits option.splits dest: ReadSlice_errors Write_errors Flush_errors)

lemma writeReadLine_wire:
  assumes "\<not> werr rw" and "\<not> wfail rw" and "req \<noteq> []"
  shows "wire (snd (snd (writeReadLine rw req))) = wire rw @ wbuf rw @ req"
proof -
  obtain line e rw1 where r: "ReadSlice rw LF = (line, e, rw1)"
    by (cases "ReadSlice rw LF") auto
  from writeReadLine_ok [OF assms r] show ?thesis by simp
qed

lemma writeExpectf_not_Malformed: "fst (writeExpectf rw ex req) \<noteq> Some ErrMalformedKey"
  unfolding writeExpectf_def
  by (auto split: prod.splits option.splits dest: writeReadLine_errors)

lemma writeExpectf_conn: "snd (writeExpectf rw ex req) = snd (snd (writeReadLine rw req))"
  unfolding writeExpectf_def
  by (auto split: prod.splits option.splits)

lemma ParseUint_loop_errors: "ParseUint_loop s n = Inl e \<Longrightarrow> e = ErrSyntax \<or> e = ErrRange"
  by (induction s arbitrary: n) (auto simp: Let_def split: if_splits)

lemma ParseUint_errors: "ParseUint s = Inl e \<Longrightarrow> e = ErrSyntax \<or> e = ErrRange"
  by (auto simp: ParseUint_def split: if_splits dest: ParseUint_loop_errors)

lemma text_IncrDecr_not_Malformed:
  "snd (fst (text_IncrDecr rw verb k delta)) \<noteq> Some ErrMalformedKey"
  unfolding text_IncrDecr_def
  by (auto split: prod.splits option.splits sum.splits
      dest: writeReadLine_errors ParseUint_errors)

lemma text_IncrDecr_conn:
  "snd (text_IncrDecr rw verb k delta) =
     snd (snd (writeReadLine rw (verb @ '' '' @ k @ '' '' @ dec_nat (unat delta) @ crlf)))"
  unfolding text_IncrDecr_def
  by (auto split: prod.splits option.splits sum.splits)

lemma text_Touch_not_Malformed: "fst (text_Touch rw keys e) \<noteq> Some ErrMalformedKey"
  using text_Touch_results [of rw keys e] by auto

lemma text_Touch_one_wire:
  assumes "\<not> werr rw" and "\<not> wfail rw"
  shows "wire (snd (text_Touch rw [k] expiration)) =
           wire rw @ wbuf rw @ ''touch '' @ k @ '' '' @ dec_int (sint expiration) @ crlf"
proof -
  obtain line e rw1 where r: "ReadSlice rw LF = (line, e, rw1)"
    by (cases "ReadSlice rw LF") auto
  from assms r show ?thesis
    by (simp add: text_Touch_Cons Let_def del: text_Touch.simps(2))
qed

lemma scanGetResponseLine_errors:
  "scanGetResponseLine S line it0 = (sz, Some e, it) \<Longrightarrow> \<exists>f a. e = Errorf f a"
  by (auto simp: scanGetResponseLine_def Let_def split: prod.splits if_splits)

lemma parseGetResponse_props:
  "wire (fst (snd (parseGetResponse S r cb))) = wire r \<and>
   fst (parseGetResponse S r cb) \<noteq> Some ErrMalformedKey"
proof (induction "length (rd r)" arbitrary: r cb rule: less_induct)
  case less
  obtain line e r1 where rs: "ReadSlice r LF = (line, e, r1)"
    by (cases "ReadSlice r LF") auto
  note w1 = ReadSlice_keeps_wire [OF rs]
  show ?case
  proof (cases e)
    case (Some err)
    with rs ReadSlice_errors [of r LF line err r1] w1 show ?thesis
      by (subst (1 2) parseGetResponse.simps) auto
  next
    case None
    note rs' = rs [unfolded None]
    show ?thesis
    proof (cases "line = resultEnd")
      case True
      with rs' w1 show ?thesis
        by (subst (1 2) parseGetResponse.simps) simp
    next
      case False
      note ne = this
      obtain sz e2 it where sc: "scanGetResponseLine S line item0 = (sz, e2, it)"
        by (cases "scanGetResponseLine S line item0") auto
      show ?thesis
      proof (cases e2)
        case (Some err2)
        with sc scanGetResponseLine_errors [of S line item0 sz err2 it] rs' ne w1 show ?thesis
          by (subst (1 2) parseGetResponse.simps) auto
      next
        case None
        note sc' = sc [unfolded None]
        show ?thesis
        proof (cases "make_panics (sz + 2)")
          case True
          from parseGetResponse_panics [OF rs' ne sc' True] w1 show ?thesis by simp
        next
          case False
          note np = this
          obtain v e3 r2 where rf: "ReadFull r1 (unat (sz + 2)) = (v, e3, r2)"
            by (cases "ReadFull r1 (unat (sz + 2))") auto
          note w2 = ReadFull_keeps_wire [OF rf]
          show ?thesis
          proof (cases e3)
            case (Some err3)
            with rf ReadFull_errors [of r1 "unat (sz + 2)" v err3 r2] rs' ne sc' np w1 w2
            show ?thesis
              by (subst (1 2) parseGetResponse.simps) auto
          next
            case None
            note rf' = rf [unfolded None]
            show ?thesis
            proof (cases "HasSuffix v crlf")
              case False
              with rf' rs' ne sc' np w1 w2 show ?thesis
                by (subst (1 2) parseGetResponse.simps) simp
            next
              case True
              from ReadSlice_shorter [OF rs'] ReadFull_not_longer [OF rf']
              have "length (rd r2) < length (rd r)" by simp
              note ih = less [OF this, of "cb @ [it\<lparr>Value := take (nat (sint sz)) v\<rparr>]"]
              have "parseGetResponse S r cb =
                  parseGetResponse S r2 (cb @ [it\<lparr>Value := take (nat (sint sz)) v\<rparr>])"
                using True rf' rs' ne sc' np
                by (subst parseGetResponse.simps) simp
              with ih w1 w2 show ?thesis by simp
            qed
          qed
        qed
      qed
    qed
  qed
qed

lemma text_Get_not_Malformed: "fst (text_Get S rw ks cb) \<noteq> Some ErrMalformedKey"
  unfolding text_Get_def
  by (auto simp: parseGetResponse_props split: prod.splits option.splits
      dest: Write_errors Flush_errors)

lemma text_Get_wire:
  assumes "\<not> werr rw" and "\<not> wfail rw"
  shows "wire (fst (snd (text_Get S rw ks cb))) =
           wire rw @ wbuf rw @ ''gets '' @ join ks '' '' @ crlf"
  using assms
  by (simp add: text_Get_def Write_def Flush_def parseGetResponse_props)

lemma bin_Populate_conn:
  "snd (bin_Populate rw verb it) =
     fst (snd (sendRecv rw (msg0\<lparr>Op := verbToOp verb,
        CAS := (if verb = ''cas'' then Casid it else 0),
        iextras := [X32 (Flags it), X32 (Expiration it)], key := Key it, val := Value it\<rparr>)))"
  by (auto simp: bin_Populate_def Let_def Cas_def split: prod.splits)

lemma bin_IncrDecr_conn:
  "snd (bin_IncrDecr rw verb k delta) =
     fst (snd (sendRecv rw (msg0\<lparr>Op := verbToOp verb,
        iextras := [X64 delta, X64 0, X32 0xffffffff], key := k\<rparr>)))"
  by (auto simp: bin_IncrDecr_def Let_def split: prod.splits option.splits)

lemma bin_DeleteCas_conn:
  "snd (bin_DeleteCas rw k cas) =
     fst (snd (sendRecv rw (msg0\<lparr>Op := opDelete, CAS := cas, key := k\<rparr>)))"
  by (auto simp: bin_DeleteCas_def split: prod.splits)

lemma bin_Get_one_conn:
  "fst (snd (bin_Get rw [k] cb)) =
     fst (snd (sendRecv rw (msg0\<lparr>Op := opGet, CAS := 0, oextras := [X32 0], key := k\<rparr>)))"
  by (auto simp: bin_Get_def getOne_def Let_def split: prod.splits option.splits)

lemma bin_Touch_one_conn:
  "snd (bin_Touch rw [k] expiration) =
     fst (snd (sendRecv rw (msg0\<lparr>Op := opTouch, iextras := [X32 expiration], key := k\<rparr>)))"
  by (auto simp: bin_Touch_def split: prod.splits option.splits)

subsection \<open>Neither driver rejects the empty key\<close>

text \<open>
  C3 as stated: every operation under both drivers rejects the empty key with
  MalformedKey, and \<open>LegalKey\<close> of the empty key is false for both drivers. Both
  predicates hold of the empty key, and a SET of an item with the empty key that the
  server accepts returns success under both drivers.
\<close>

theorem empty_key_accepted_counterexample:
  "text_LegalKey [] \<and> bin_LegalKey [] \<and>
   fst (text_Populate (serve (''STORED'' @ crlf)) Set item_nokey) = None \<and>
   fst (bin_Populate (serve (bin_response opSet StatusOK [])) Set item_nokey) = None"
  by (simp add: text_LegalKey_def bin_LegalKey_def item_nokey_def text_Populate_def
      bin_Populate_def ReadSlice_def result_defs dec_int_def dec_nat.simps eval_defs)

text \<open>
  C3, amended: \<open>LegalKey\<close> of the empty key is true for both drivers. No operation
  of either driver that takes a key returns MalformedKey for the empty key, on any
  connection: not Populate, Get, Delete, Touch and IncrDecr of the text driver, and not
  Populate, Get, Delete, DeleteCas, Touch and IncrDecr of the binary driver. On a
  connection that accepts writes each of them puts its request for the empty key on the
  wire: the text driver its command line with an empty key field, the binary driver a
  frame whose key is empty.
\<close>

theorem empty_key_not_rejected:
  "text_LegalKey [] \<and> bin_LegalKey [] \<and>
   fst (text_Populate rw verb (it\<lparr>Key := []\<rparr>)) \<noteq> Some ErrMalformedKey \<and>
   fst (text_Get Sscanf rw ks cb) \<noteq> Some ErrMalformedKey \<and>
   fst (text_Delete rw []) \<noteq> Some ErrMalformedKey \<and>
   fst (text_Touch rw ks expiration) \<noteq> Some ErrMalformedKey \<and>
   snd (fst (text_IncrDecr rw verb [] delta)) \<noteq> Some ErrMalformedKey \<and>
   fst (bin_Populate rw verb (it\<lparr>Key := []\<rparr>)) \<noteq> Some ErrMalformedKey \<and>
   fst (bin_Get rw ks cb) \<noteq> Some ErrMalformedKey \<and>
   fst (bin_Delete rw []) \<noteq> Some ErrMalformedKey \<and>
   fst (bin_DeleteCas rw [] cas) \<noteq> Some ErrMalformedKey \<and>
   fst (bin_Touch rw ks expiration) \<noteq> Some ErrMalformedKey \<and>
   snd (fst (bin_IncrDecr rw verb [] delta)) \<noteq> Some ErrMalformedKey \<and>
   (\<not> werr rw \<and> \<not> wfail rw \<longrightarrow>
      wire (snd (text_Populate rw verb (it\<lparr>Key := []\<rparr>))) =
        wire rw @ wbuf rw @ verb @ ''  '' @ dec_nat (unat (Flags it)) @ '' '' @
        dec_int (sint (Expiration it)) @ '' '' @ dec_nat (length (Value it)) @
        (if verb = ''cas'' then '' '' @ dec_nat (unat (Casid it)) else []) @ crlf @
        Value it @ crlf \<and>
      wire (fst (snd (text_Get Sscanf rw [[]] cb))) = wire rw @ wbuf rw @ ''gets '' @ crlf \<and>
      wire (snd (text_Delete rw [])) = wire rw @ wbuf rw @ ''delete '' @ crlf \<and>
      wire (snd (text_Touch rw [[]] expiration)) =
        wire rw @ wbuf rw @ ''touch  '' @ dec_int (sint expiration) @ crlf \<and>
      wire (snd (text_IncrDecr rw verb [] delta)) =
        wire rw @ wbuf rw @ verb @ ''  '' @ dec_nat (unat delta) @ crlf \<and>
      wire (snd (bin_Populate rw verb (it\<lparr>Key := []\<rparr>))) =
        wire rw @ wbuf rw @
        frame (fill_header (msg0\<lparr>Op := verbToOp verb,
          CAS := (if verb = ''cas'' then Casid it else 0),
          iextras := [X32 (Flags it), X32 (Expiration it)], key := [], val := Value it\<rparr>)) \<and>
      wire (fst (snd (bin_Get rw [[]] cb))) =
        wire rw @ wbuf rw @
        frame (fill_header (msg0\<lparr>Op := opGet, CAS := 0, oextras := [X32 0], key := []\<rparr>)) \<and>
      wire (snd (bin_Delete rw [])) =
        wire rw @ wbuf rw @ frame (fill_header (msg0\<lparr>Op := opDelete, CAS := 0, key := []\<rparr>)) \<and>
      wire (snd (bin_DeleteCas rw [] cas)) =
        wire rw @ wbuf rw @ frame (fill_header (msg0\<lparr>Op := opDelete, CAS := cas, key := []\<rparr>)) \<and>
      wire (snd (bin_Touch rw [[]] expiration)) =
        wire rw @ wbuf rw @
        frame (fill_header (msg0\<lparr>Op := opTouch, iextras := [X32 expiration], key := []\<rparr>)) \<and>
      wire (snd (bin_IncrDecr rw verb [] delta)) =
        wire rw @ wbuf rw @
        frame (fill_header (msg0\<lparr>Op := verbToOp verb,
          iextras := [X64 delta, X64 0, X32 0xffffffff], key := []\<rparr>)))"
proof -
  have lk: "text_LegalKey (Key (it\<lparr>Key := []\<rparr>))"
    by (simp add: text_LegalKey_def)
  note tp = text_Populate_legal_exchange [OF lk, of rw verb]
  have a: "text_LegalKey [] \<and> bin_LegalKey []"
    by (simp add: text_LegalKey_def bin_LegalKey_def)
  have b: "fst (text_Populate rw verb (it\<lparr>Key := []\<rparr>)) \<noteq> Some ErrMalformedKey"
    "fst (text_Get Sscanf rw ks cb) \<noteq> Some ErrMalformedKey"
    "fst (text_Delete rw []) \<noteq> Some ErrMalformedKey"
    "fst (text_Touch rw ks expiration) \<noteq> Some ErrMalformedKey"
    "snd (fst (text_IncrDecr rw verb [] delta)) \<noteq> Some ErrMalformedKey"
    using tp
    by (simp_all add: text_Get_not_Malformed text_Delete_def writeExpectf_not_Malformed
        text_Touch_not_Malformed text_IncrDecr_not_Malformed)
  have c: "fst (bin_Populate rw verb (it\<lparr>Key := []\<rparr>)) \<noteq> Some ErrMalformedKey"
    "fst (bin_Get rw ks cb) \<noteq> Some ErrMalformedKey"
    "fst (bin_Delete rw []) \<noteq> Some ErrMalformedKey"
    "fst (bin_DeleteCas rw [] cas) \<noteq> Some ErrMalformedKey"
    "fst (bin_Touch rw ks expiration) \<noteq> Some ErrMalformedKey"
    "snd (fst (bin_IncrDecr rw verb [] delta)) \<noteq> Some ErrMalformedKey"
    by (simp_all add: bin_Populate_not_Malformed bin_Get_def bin_Get_loop_not_Malformed
        bin_Delete_def bin_DeleteCas_not_Malformed bin_Touch_def bin_Touch_loop_not_Malformed
        bin_IncrDecr_not_Malformed)
  {
    assume ok: "\<not> werr rw" "\<not> wfail rw"
    have t1: "wire (snd (text_Populate rw verb (it\<lparr>Key := []\<rparr>))) =
        wire rw @ wbuf rw @ verb @ ''  '' @ dec_nat (unat (Flags it)) @ '' '' @
        dec_int (sint (Expiration it)) @ '' '' @ dec_nat (length (Value it)) @
        (if verb = ''cas'' then '' '' @ dec_nat (unat (Casid it)) else []) @ crlf @
        Value it @ crlf"
      using tp ok by simp
    have t2: "wire (fst (snd (text_Get Sscanf rw [[]] cb))) = wire rw @ wbuf rw @ ''gets '' @ crlf"
      using text_Get_wire [OF ok, of Sscanf "[[]]" cb] by (simp add: join_def)
    have t3: "wire (snd (text_Delete rw [])) = wire rw @ wbuf rw @ ''delete '' @ crlf"
      using writeReadLine_wire [OF ok, of "''delete '' @ crlf"]
      by (simp add: text_Delete_def writeExpectf_conn)
    have t4: "wire (snd (text_Touch rw [[]] expiration)) =
        wire rw @ wbuf rw @ ''touch  '' @ dec_int (sint expiration) @ crlf"
      using text_Touch_one_wire [OF ok, of "[]" expiration] by simp
    have t5: "wire (snd (text_IncrDecr rw verb [] delta)) =
        wire rw @ wbuf rw @ verb @ ''  '' @ dec_nat (unat delta) @ crlf"
      using writeReadLine_wire [OF ok, of "verb @ ''  '' @ dec_nat (unat delta) @ crlf"]
      by (simp add: text_IncrDecr_conn)
    note sw = sendRecv_wire [OF ok]
    have b1: "wire (snd (bin_Populate rw verb (it\<lparr>Key := []\<rparr>))) =
        wire rw @ wbuf rw @
        frame (fill_header (msg0\<lparr>Op := verbToOp verb,
          CAS := (if verb = ''cas'' then Casid it else 0),
          iextras := [X32 (Flags it), X32 (Expiration it)], key := [], val := Value it\<rparr>))"
      by (simp add: bin_Populate_conn sw)
    have b2: "wire (fst (snd (bin_Get rw [[]] cb))) =
        wire rw @ wbuf rw @
        frame (fill_header (msg0\<lparr>Op := opGet, CAS := 0, oextras := [X32 0], key := []\<rparr>))"
      by (simp only: bin_Get_one_conn sw)
    have b3: "wire (snd (bin_DeleteCas rw [] c)) =
        wire rw @ wbuf rw @ frame (fill_header (msg0\<lparr>Op := opDelete, CAS := c, key := []\<rparr>))"
      for c
      by (simp only: bin_DeleteCas_conn sw)
    have b4: "wire (snd (bin_Touch rw [[]] expiration)) =
        wire rw @ wbuf rw @
        frame (fill_header (msg0\<lparr>Op := opTouch, iextras := [X32 expiration], key := []\<rparr>))"
      by (simp only: bin_Touch_one_conn sw)
    have b5: "wire (snd (bin_IncrDecr rw verb [] delta)) =
        wire rw @ wbuf rw @
        frame (fill_header (msg0\<lparr>Op := verbToOp verb,
          iextras := [X64 delta, X64 0, X32 0xffffffff], key := []\<rparr>))"
      by (simp only: bin_IncrDecr_conn sw)
    note t1 t2 t3 t4 t5 b1 b2 b3 [of 0] b3 [of cas] b4 b5
  }
  note d = this
  show ?thesis
    using a b c d by (simp only: bin_Delete_def) blast
qed

theorem empty_key_not_rejected_witness:
  "\<not> werr (serve (''STORED'' @ crlf)) \<and> \<not> wfail (serve (''STORED'' @ crlf)) \<and>
   fst (text_Populate (serve (''STORED'' @ crlf)) Set item_nokey) \<noteq> Some ErrMalformedKey \<and>
   wire (snd (text_Populate (serve (''STORED'' @ crlf)) Set item_nokey)) =
     ''set  0 0 1'' @ crlf @ ''v'' @ crlf \<and>
   wire (snd (text_Delete (serve (''STORED'' @ crlf)) [])) = ''delete '' @ crlf"
proof -
  have w: "\<not> werr (serve x) \<and> \<not> wfail (serve x)" for x
    by (simp add: serve_def)
  have i: "item_nokey\<lparr>Key := []\<rparr> = item_nokey"
    by (simp add: item_nokey_def)
  show ?thesis
    using empty_key_not_rejected [of "serve (''STORED'' @ crlf)" Set item_nokey sample_Sscanf
        "[]" "[]" 0 0 0] w [of "''STORED'' @ crlf"]
    by (simp add: i)
       (simp add: serve_def item_nokey_def Set_def dec_int_def dec_nat.simps char_of_def bit_simps)
qed

end
